theory Spec2Isabelle
  imports Main "HOL-Library.Word" "HOL-Library.Sublist"
begin

unbundle bit_operations_syntax

section \<open>Python values used by \<open>backend.py\<close>\<close>

text \<open>
  A Python \<open>str\<close> is a sequence of Unicode code points (lone surrogates included), so it
  is modelled as a list of code points, not as a list of 8-bit characters: the messages
  of the backend are Chinese text, and \<open>bytes.decode("utf-8")\<close> yields code points above
  255. \<open>bytes\<close> are lists of 8-bit words. \<open>ascii\<close> turns an ASCII literal into a
  \<open>str\<close>.
\<close>

type_synonym pystr = "nat list"
type_synonym byte = "8 word"
type_synonym bytes = "byte list"

definition ascii :: "string \<Rightarrow> pystr" where
  "ascii s = map of_char s"

text \<open>
  \<open>str.strip()\<close> without argument removes leading and trailing whitespace, the code
  points for which \<open>str.isspace\<close> holds (CPython's \<open>_PyUnicode_IsWhitespace\<close>).
\<close>

definition is_whitespace :: "nat \<Rightarrow> bool" where
  "is_whitespace c =
     ((9 \<le> c \<and> c \<le> 13) \<or> (28 \<le> c \<and> c \<le> 32) \<or> c = 133 \<or> c = 160 \<or> c = 5760
      \<or> (8192 \<le> c \<and> c \<le> 8202) \<or> c = 8232 \<or> c = 8233 \<or> c = 8239 \<or> c = 8287
      \<or> c = 12288)"

definition strip :: "pystr \<Rightarrow> pystr" where
  "strip s = rev (dropWhile is_whitespace (rev (dropWhile is_whitespace s)))"

text \<open>\<open>str(n)\<close> for an integer: its decimal digits, with a minus sign when negative.\<close>

fun digits :: "nat \<Rightarrow> pystr" where
  "digits n = (if n < 10 then [48 + n] else digits (n div 10) @ [48 + n mod 10])"

declare digits.simps [simp del]

definition str_of_int :: "int \<Rightarrow> pystr" where
  "str_of_int n = (if n < 0 then ascii ''-'' @ digits (nat (- n)) else digits (nat n))"

text \<open>
  The values \<open>json.loads\<close> returns and \<open>jsonify\<close> accepts. A \<open>dict\<close> keeps its insertion
  order, so it is an association list (its keys are distinct in Python; \<open>map_of\<close> reads the
  first entry of a key). JSON numbers are Python integers here: floating point values are
  not modelled, and no handler computes with a number.
\<close>

datatype json =
    JNull
  | JBool bool
  | JInt int
  | JStr pystr
  | JArr "json list"
  | JObj "(pystr \<times> json) list"

text \<open>Python truthiness, as \<open>if x\<close>, \<open>not x\<close> and \<open>x or y\<close> test it.\<close>

fun truthy :: "json \<Rightarrow> bool" where
  "truthy JNull = False"
| "truthy (JBool b) = b"
| "truthy (JInt n) = (n \<noteq> 0)"
| "truthy (JStr s) = (s \<noteq> [])"
| "truthy (JArr xs) = (xs \<noteq> [])"
| "truthy (JObj kvs) = (kvs \<noteq> [])"

text \<open>
  The exceptions that can leave a request handler. None of them is caught in
  \<open>backend.py\<close>: Flask answers \<open>AttributeError\<close> and \<open>UnicodeEncodeError\<close> with
  HTTP 500 and \<open>BadRequest\<close> with HTTP 400.
\<close>

datatype exn = AttributeError | UnicodeEncodeError | BadRequest

text \<open>\<open>x.get(key, default)\<close>: only a \<open>dict\<close> has the method.\<close>

fun py_get :: "json \<Rightarrow> pystr \<Rightarrow> json \<Rightarrow> exn + json" where
  "py_get (JObj kvs) k d = Inr (case map_of kvs k of None \<Rightarrow> d | Some v \<Rightarrow> v)"
| "py_get _ k d = Inl AttributeError"

text \<open>\<open>x.strip()\<close>: only a \<open>str\<close> has the method (among JSON values).\<close>

fun py_strip :: "json \<Rightarrow> exn + pystr" where
  "py_strip (JStr s) = Inr (strip s)"
| "py_strip _ = Inl AttributeError"

section \<open>Library functions: UTF-8 and base64\<close>

text \<open>
  \<open>str.encode("utf-8")\<close> and \<open>bytes.decode("utf-8")\<close> with the default strict error
  handler: \<open>None\<close> stands for \<open>UnicodeEncodeError\<close> (a surrogate code point) and
  \<open>UnicodeDecodeError\<close> (an ill-formed byte sequence).
\<close>

definition utf8_encode_cp :: "nat \<Rightarrow> bytes option" where
  "utf8_encode_cp c =
     (if c < 0x80 then Some [of_nat c]
      else if c < 0x800 then Some [of_nat (0xC0 + c div 64), of_nat (0x80 + c mod 64)]
      else if 0xD800 \<le> c \<and> c \<le> 0xDFFF then None
      else if c < 0x10000 then
        Some [of_nat (0xE0 + c div 4096), of_nat (0x80 + c div 64 mod 64), of_nat (0x80 + c mod 64)]
      else if c < 0x110000 then
        Some [of_nat (0xF0 + c div 262144), of_nat (0x80 + c div 4096 mod 64),
              of_nat (0x80 + c div 64 mod 64), of_nat (0x80 + c mod 64)]
      else None)"

fun utf8_encode :: "pystr \<Rightarrow> bytes option" where
  "utf8_encode [] = Some []"
| "utf8_encode (c # cs) =
     (case utf8_encode_cp c of
        None \<Rightarrow> None
      | Some bs \<Rightarrow> (case utf8_encode cs of None \<Rightarrow> None | Some r \<Rightarrow> Some (bs @ r)))"

definition is_cont :: "byte \<Rightarrow> bool" where
  "is_cont b = (0x80 \<le> b \<and> b \<le> 0xBF)"

definition cont_bits :: "byte \<Rightarrow> nat" where
  "cont_bits b = unat b mod 64"

fun utf8_decode :: "bytes \<Rightarrow> pystr option" where
  "utf8_decode [] = Some []"
| "utf8_decode (b0 # bs) =
     (if b0 < 0x80 then map_option (Cons (unat b0)) (utf8_decode bs)
      else if b0 < 0xC2 then None
      else if b0 < 0xE0 then
        (case bs of
           b1 # r \<Rightarrow>
             if is_cont b1
             then map_option (Cons ((unat b0 - 0xC0) * 64 + cont_bits b1)) (utf8_decode r)
             else None
         | _ \<Rightarrow> None)
      else if b0 < 0xF0 then
        (case bs of
           b1 # b2 # r \<Rightarrow>
             if is_cont b1 \<and> is_cont b2
                \<and> (if b0 = 0xE0 then 0xA0 \<le> b1 else True)
                \<and> (if b0 = 0xED then b1 \<le> 0x9F else True)
             then map_option
                    (Cons ((unat b0 - 0xE0) * 4096 + cont_bits b1 * 64 + cont_bits b2))
                    (utf8_decode r)
             else None
         | _ \<Rightarrow> None)
      else if b0 < 0xF5 then
        (case bs of
           b1 # b2 # b3 # r \<Rightarrow>
             if is_cont b1 \<and> is_cont b2 \<and> is_cont b3
                \<and> (if b0 = 0xF0 then 0x90 \<le> b1 else True)
                \<and> (if b0 = 0xF4 then b1 \<le> 0x8F else True)
             then map_option
                    (Cons ((unat b0 - 0xF0) * 262144 + cont_bits b1 * 4096
                           + cont_bits b2 * 64 + cont_bits b3))
                    (utf8_decode r)
             else None
         | _ \<Rightarrow> None)
      else None)"

text \<open>
  The base64 alphabet of RFC 4648, and CPython's \<open>table_a2b_base64\<close>: the 6-bit value of
  an alphabet character, \<open>None\<close> for every other byte (the table's entries above 63).
\<close>

definition b64_alphabet :: pystr where
  "b64_alphabet = ascii ''ABCDEFGHIJKLMNOPQRSTUVWXYZabcdefghijklmnopqrstuvwxyz0123456789+/''"

fun index_of :: "nat list \<Rightarrow> nat \<Rightarrow> nat option" where
  "index_of [] c = None"
| "index_of (x # xs) c = (if x = c then Some 0 else map_option Suc (index_of xs c))"

definition table_a2b_base64 :: "byte \<Rightarrow> byte option" where
  "table_a2b_base64 c = map_option of_nat (index_of b64_alphabet (unat c))"

definition table_b2a_base64 :: "byte \<Rightarrow> nat" where
  "table_b2a_base64 v = b64_alphabet ! unat (v AND 0x3F)"

definition BASE64_PAD :: byte where
  "BASE64_PAD = 61"

text \<open>
  \<open>binascii.a2b_base64(data, strict_mode)\<close> as CPython 3.11 has it, which
  \<open>base64.b64decode(s, validate)\<close> calls with \<open>strict_mode = validate\<close>. The loop over
  the input carries \<open>quad_pos\<close>, \<open>leftchar\<close>, \<open>pads\<close> and \<open>padding_started\<close>;
  \<open>None\<close> is \<open>binascii.Error\<close>.
\<close>

fun a2b_loop :: "bool \<Rightarrow> bytes \<Rightarrow> nat \<Rightarrow> byte \<Rightarrow> nat \<Rightarrow> bool \<Rightarrow> bytes \<Rightarrow> bytes option" where
  "a2b_loop strict_mode [] quad_pos leftchar pads padding_started bin_data =
     (if quad_pos \<noteq> 0 then None else Some bin_data)"
| "a2b_loop strict_mode (this_ch # rest) quad_pos leftchar pads padding_started bin_data =
     (if this_ch = BASE64_PAD then
        (if quad_pos \<ge> 2 \<and> quad_pos + (pads + 1) \<ge> 4 then
           (if strict_mode \<and> rest \<noteq> [] then None else Some bin_data)
         else a2b_loop strict_mode rest quad_pos leftchar
                (if quad_pos \<ge> 2 then pads + 1 else pads) True bin_data)
      else
        (case table_a2b_base64 this_ch of
           None \<Rightarrow>
             if strict_mode then None
             else a2b_loop strict_mode rest quad_pos leftchar pads padding_started bin_data
         | Some v \<Rightarrow>
             if strict_mode \<and> padding_started then None
             else if quad_pos = 0 then
               a2b_loop strict_mode rest 1 v 0 padding_started bin_data
             else if quad_pos = 1 then
               a2b_loop strict_mode rest 2 (v AND 0x0F) 0 padding_started
                 (bin_data @ [push_bit 2 leftchar OR drop_bit 4 v])
             else if quad_pos = 2 then
               a2b_loop strict_mode rest 3 (v AND 0x03) 0 padding_started
                 (bin_data @ [push_bit 4 leftchar OR drop_bit 2 v])
             else
               a2b_loop strict_mode rest 0 0 0 padding_started
                 (bin_data @ [push_bit 6 leftchar OR v])))"

definition a2b_base64 :: "bytes \<Rightarrow> bool \<Rightarrow> bytes option" where
  "a2b_base64 data strict_mode =
     (if strict_mode \<and> data \<noteq> [] \<and> hd data = BASE64_PAD then None
      else a2b_loop strict_mode data 0 0 0 False [])"

text \<open>
  \<open>base64.b64decode(s, validate=...)\<close> on a \<open>str\<close>: the text is first encoded as ASCII
  (\<open>ValueError\<close> when it is not ASCII), then decoded.
\<close>

definition b64decode :: "pystr \<Rightarrow> bool \<Rightarrow> bytes option" where
  "b64decode s validate =
     (if list_all (\<lambda>c. c < 128) s then a2b_base64 (map of_nat s) validate else None)"

text \<open>
  \<open>base64.b64encode(b).decode("utf-8")\<close>: three bytes give four alphabet characters, and
  a last group of one or two bytes is padded with \<open>=\<close>.
\<close>

fun b64encode :: "bytes \<Rightarrow> pystr" where
  "b64encode [] = []"
| "b64encode [a] =
     [table_b2a_base64 (drop_bit 2 a), table_b2a_base64 (push_bit 4 (a AND 3)),
      unat BASE64_PAD, unat BASE64_PAD]"
| "b64encode [a, b] =
     [table_b2a_base64 (drop_bit 2 a),
      table_b2a_base64 (push_bit 4 (a AND 3) OR drop_bit 4 b),
      table_b2a_base64 (push_bit 2 (b AND 15)), unat BASE64_PAD]"
| "b64encode (a # b # c # rest) =
     [table_b2a_base64 (drop_bit 2 a),
      table_b2a_base64 (push_bit 4 (a AND 3) OR drop_bit 4 b),
      table_b2a_base64 (push_bit 2 (b AND 15) OR drop_bit 6 c),
      table_b2a_base64 (c AND 63)] @ b64encode rest"

section \<open>The helpers \<open>_is_base64\<close> and \<open>_decode_result\<close>\<close>

definition base64_charset :: pystr where
  "base64_charset =
     ascii ''ABCDEFGHIJKLMNOPQRSTUVWXYZabcdefghijklmnopqrstuvwxyz0123456789+/='' @ [10, 13]"

text \<open>
  \<open>_is_base64(s)\<close>: false for an empty string or a character outside the set; otherwise
  true exactly when the validating decode raises nothing.
\<close>

definition is_base64 :: "pystr \<Rightarrow> bool" where
  "is_base64 s =
     (if s = [] \<or> list_ex (\<lambda>c. c \<notin> set base64_charset) s then False
      else (case b64decode s True of None \<Rightarrow> False | Some _ \<Rightarrow> True))"

text \<open>
  \<open>_decode_result(maybe_b64)\<close>: the argument is whatever the handler read from the
  parsed output, so any JSON value. The second decode does not validate, and an exception
  of it or of the UTF-8 decoding returns the argument.
\<close>

definition decode_result :: "json \<Rightarrow> json" where
  "decode_result maybe_b64 =
     (case maybe_b64 of
        JStr s \<Rightarrow>
          if is_base64 s then
            (case b64decode s False of
               None \<Rightarrow> maybe_b64
             | Some bs \<Rightarrow> (case utf8_decode bs of None \<Rightarrow> maybe_b64 | Some t \<Rightarrow> JStr t))
          else maybe_b64
      | _ \<Rightarrow> maybe_b64)"

section \<open>Library functions: \<open>json.dumps\<close> and \<open>os.path\<close>\<close>

text \<open>
  \<open>json.dumps(obj, separators=(item, key))\<close> with the default \<open>ensure_ascii=True\<close>:
  inside a string, the printable ASCII characters other than the quote and the backslash
  stand for themselves, seven characters have a short escape, and every other code point
  is written as \<open>\uXXXX\<close> (a surrogate pair above U+FFFF).
\<close>

definition hexdigit :: "nat \<Rightarrow> nat" where
  "hexdigit d = (if d < 10 then 48 + d else 87 + d)"

definition hex4 :: "nat \<Rightarrow> pystr" where
  "hex4 c = [hexdigit (c div 4096 mod 16), hexdigit (c div 256 mod 16),
             hexdigit (c div 16 mod 16), hexdigit (c mod 16)]"

definition escape_char :: "nat \<Rightarrow> pystr" where
  "escape_char c =
     (if 32 \<le> c \<and> c \<le> 126 \<and> c \<noteq> 92 \<and> c \<noteq> 34 then [c]
      else if c = 92 then [92, 92]
      else if c = 34 then [92, 34]
      else if c = 8 then [92, 98]
      else if c = 12 then [92, 102]
      else if c = 10 then [92, 110]
      else if c = 13 then [92, 114]
      else if c = 9 then [92, 116]
      else if c \<ge> 0x10000 then
        [92, 117] @ hex4 (0xD800 - 64 + c div 1024) @ [92, 117] @ hex4 (0xDC00 + c mod 1024)
      else [92, 117] @ hex4 c)"

definition encode_basestring_ascii :: "pystr \<Rightarrow> pystr" where
  "encode_basestring_ascii s = [34] @ concat (map escape_char s) @ [34]"

fun join :: "'a list \<Rightarrow> 'a list list \<Rightarrow> 'a list" where
  "join sep [] = []"
| "join sep [x] = x"
| "join sep (x # y # ys) = x @ sep @ join sep (y # ys)"

fun json_dumps :: "pystr \<Rightarrow> pystr \<Rightarrow> json \<Rightarrow> pystr" where
  "json_dumps item_sep key_sep JNull = ascii ''null''"
| "json_dumps item_sep key_sep (JBool b) = (if b then ascii ''true'' else ascii ''false'')"
| "json_dumps item_sep key_sep (JInt n) = str_of_int n"
| "json_dumps item_sep key_sep (JStr s) = encode_basestring_ascii s"
| "json_dumps item_sep key_sep (JArr xs) =
     ascii ''['' @ join item_sep (map (json_dumps item_sep key_sep) xs) @ ascii '']''"
| "json_dumps item_sep key_sep (JObj kvs) =
     ascii ''{''
     @ join item_sep
         (map (\<lambda>(k, v). encode_basestring_ascii k @ key_sep @ json_dumps item_sep key_sep v) kvs)
     @ ascii ''}''"

text \<open>\<open>os.path.join(a, b)\<close> and \<open>os.path.basename(p)\<close> of \<open>posixpath\<close>.\<close>

definition path_join :: "pystr \<Rightarrow> pystr \<Rightarrow> pystr" where
  "path_join a b =
     (if b \<noteq> [] \<and> hd b = 47 then b
      else if a = [] \<or> last a = 47 then a @ b
      else a @ [47] @ b)"

definition basename :: "pystr \<Rightarrow> pystr" where
  "basename p = rev (takeWhile (\<lambda>c. c \<noteq> 47) (rev p))"

section \<open>Configuration and the outside world\<close>

text \<open>
  The four module constants are read from environment variables when the module is
  loaded, so they are parameters of every function; \<open>default_config\<close> holds the values
  used when the variables are unset.
\<close>

record config =
  CONTRACT_NAME :: pystr
  SDK_CONF_PATH :: pystr
  CMC_BIN :: pystr
  WORK_DIR :: pystr

definition default_config :: config where
  "default_config =
     \<lparr>CONTRACT_NAME = ascii ''CMNFA'',
      SDK_CONF_PATH = ascii ''./testdata/sdk_config.yml'',
      CMC_BIN = ascii ''./cmc'',
      WORK_DIR = ascii ''/home/young3/chainmaker-go/tools/cmc''\<rparr>"

text \<open>
  What \<open>subprocess.run(cmd, cwd=..., capture_output=True, text=True, timeout=...)\<close> can
  do: return a completed process (exit code, standard output, standard error), raise
  \<open>TimeoutExpired\<close>, or raise another exception \<open>e\<close>, kept as \<open>str(e)\<close>.
\<close>

datatype run_result =
    Completed int pystr pystr
  | TimeoutExpired
  | RunException pystr

text \<open>
  The environment of a request: the file system as \<open>os.path.exists\<close> sees it, the
  external client as \<open>subprocess.run\<close> runs it (a function of the command line, the
  working directory and the timeout), and \<open>json.loads\<close> (\<open>None\<close> when it raises).
\<close>

record env =
  path_exists :: "pystr \<Rightarrow> bool"
  subprocess_run :: "pystr list \<Rightarrow> pystr \<Rightarrow> int \<Rightarrow> run_result"
  json_loads :: "pystr \<Rightarrow> json option"

text \<open>
  A spawned process: command line, working directory, timeout. Every function that can
  reach \<open>subprocess.run\<close> returns the list of the processes it spawned next to its
  value.
\<close>

type_synonym spawn = "pystr list \<times> pystr \<times> int"

section \<open>The execution wrapper \<open>exec_cmc\<close>\<close>

definition msg_no_cmc :: pystr where
  "msg_no_cmc = [0x627E, 0x4E0D, 0x5230] @ ascii '' CMC '' @ [0x53EF, 0x6267, 0x884C, 0x6587, 0x4EF6, 0xFF1A]"

definition msg_no_sdk :: pystr where
  "msg_no_sdk = [0x627E, 0x4E0D, 0x5230] @ ascii '' SDK '' @ [0x914D, 0x7F6E, 0xFF1A]"

definition msg_exit_code :: pystr where
  "msg_exit_code = ascii ''cmc '' @ [0x9000, 0x51FA, 0x7801] @ ascii '' ''"

definition msg_timeout :: pystr where
  "msg_timeout = [0x6267, 0x884C, 0x8D85, 0x65F6]"

definition msg_exception :: pystr where
  "msg_exception = [0x6267, 0x884C, 0x5F02, 0x5E38, 0xFF1A]"

text \<open>\<open>stderr or stdout or f"cmc ... {p.returncode}"\<close>, on the stripped texts.\<close>

definition failure_message :: "int \<Rightarrow> pystr \<Rightarrow> pystr \<Rightarrow> pystr" where
  "failure_message returncode stdout stderr =
     (if stderr \<noteq> [] then stderr
      else if stdout \<noteq> [] then stdout
      else msg_exit_code @ str_of_int returncode)"

text \<open>
  \<open>exec_cmc(method, params, sync, timeout)\<close> returns the pair \<open>(ok, data)\<close>; the model
  adds the processes spawned. The logging call has no effect on the result and is left
  out. \<open>params\<close> is a \<open>dict\<close> or \<open>None\<close>.
\<close>

definition exec_cmc ::
  "config \<Rightarrow> env \<Rightarrow> pystr \<Rightarrow> (pystr \<times> json) list option \<Rightarrow> bool \<Rightarrow> int \<Rightarrow> spawn list \<times> bool \<times> json" where
  "exec_cmc cfg world method params sync timeout =
     (let cmd =
            [CMC_BIN cfg, ascii ''client'', ascii ''contract'', ascii ''user'', ascii ''invoke'',
             ascii ''--contract-name='' @ CONTRACT_NAME cfg,
             ascii ''--method='' @ method,
             ascii ''--sdk-conf-path='' @ SDK_CONF_PATH cfg,
             ascii ''--sync-result='' @ (if sync then ascii ''true'' else ascii ''false'')]
            @ (case params of
                 None \<Rightarrow> []
               | Some kvs \<Rightarrow>
                   if kvs \<noteq> []
                   then [ascii ''--params='' @ json_dumps (ascii '','') (ascii '':'') (JObj kvs)]
                   else [])
      in
        if \<not> path_exists world (path_join (WORK_DIR cfg) (basename (CMC_BIN cfg))) then
          ([], False, JStr (msg_no_cmc @ path_join (WORK_DIR cfg) (CMC_BIN cfg)))
        else if \<not> path_exists world (path_join (WORK_DIR cfg) (SDK_CONF_PATH cfg)) then
          ([], False, JStr (msg_no_sdk @ path_join (WORK_DIR cfg) (SDK_CONF_PATH cfg)))
        else
          ([(cmd, WORK_DIR cfg, timeout)],
           (case subprocess_run world cmd (WORK_DIR cfg) timeout of
              Completed returncode out er \<Rightarrow>
                (let stdout = strip out; stderr = strip er in
                   if returncode \<noteq> 0 then
                     (False, JStr (failure_message returncode stdout stderr))
                   else
                     (True, (case json_loads world stdout of None \<Rightarrow> JStr stdout | Some d \<Rightarrow> d)))
            | TimeoutExpired \<Rightarrow> (False, JStr msg_timeout)
            | RunException e \<Rightarrow> (False, JStr (msg_exception @ e)))))"

text \<open>The default of the \<open>timeout\<close> parameter; no handler passes another value.\<close>

definition default_timeout :: int where
  "default_timeout = 60"

section \<open>Responses\<close>

text \<open>\<open>ok(data)\<close> and \<open>err(msg)\<close>: the body \<open>jsonify\<close> sends, with HTTP status 200.\<close>

definition ok :: "json \<Rightarrow> json" where
  "ok data = JObj [(ascii ''success'', JBool True), (ascii ''data'', data)]"

definition err :: "json \<Rightarrow> json" where
  "err msg = JObj [(ascii ''success'', JBool False), (ascii ''error'', msg)]"

text \<open>
  \<open>request.get_json(force=True)\<close>: the request body parsed as JSON, whatever the content
  type; a body that does not parse raises \<open>BadRequest\<close>. The request is given as the
  parsed body, \<open>None\<close> when it does not parse.
\<close>

definition get_json :: "json option \<Rightarrow> exn + json" where
  "get_json request = (case request of None \<Rightarrow> Inl BadRequest | Some body \<Rightarrow> Inr body)"

text \<open>
  The end of the four query handlers:
  \<open>res = data.get("contract_result", {}).get("result", default); return ok(_decode_result(res))\<close>.
\<close>

definition query_response :: "json \<Rightarrow> json \<Rightarrow> exn + json" where
  "query_response default_res data =
     (case py_get data (ascii ''contract_result'') (JObj []) of
        Inl e \<Rightarrow> Inl e
      | Inr cr \<Rightarrow>
          (case py_get cr (ascii ''result'') default_res of
             Inl e \<Rightarrow> Inl e
           | Inr res \<Rightarrow> Inr (ok (decode_result res))))"

text \<open>
  The end of the four write handlers: the dictionary \<open>pretty\<close> built from
  \<open>cr = data.get("contract_result", {})\<close>, then \<open>ok(pretty)\<close>.
\<close>

definition pretty_response :: "json \<Rightarrow> exn + json" where
  "pretty_response data =
     (case py_get data (ascii ''contract_result'') (JObj []) of
        Inl e \<Rightarrow> Inl e
      | Inr cr \<Rightarrow>
          (case py_get cr (ascii ''message'') (JStr []) of
             Inl e \<Rightarrow> Inl e
           | Inr msg \<Rightarrow>
               (case py_get cr (ascii ''contract_event'') (JArr []) of
                  Inl e \<Rightarrow> Inl e
                | Inr evts \<Rightarrow>
                    (case py_get data (ascii ''tx_id'') JNull of
                       Inl e \<Rightarrow> Inl e
                     | Inr tx_id \<Rightarrow>
                         (case py_get data (ascii ''tx_block_height'') JNull of
                            Inl e \<Rightarrow> Inl e
                          | Inr height \<Rightarrow>
                              Inr (ok (JObj [(ascii ''message'', msg),
                                             (ascii ''events'', evts),
                                             (ascii ''tx_id'', tx_id),
                                             (ascii ''block_height'', height)])))))))"

text \<open>
  \<open>ok_, data = exec_cmc(...); if not ok_: return err(data)\<close>, followed by the rest of
  the handler.
\<close>

definition invoke ::
  "config \<Rightarrow> env \<Rightarrow> pystr \<Rightarrow> (pystr \<times> json) list option \<Rightarrow> (json \<Rightarrow> exn + json)
   \<Rightarrow> spawn list \<times> (exn + json)" where
  "invoke cfg world method params finish =
     (case exec_cmc cfg world method params True default_timeout of
        (spawned, ok_, data) \<Rightarrow>
          if \<not> ok_ then (spawned, Inr (err data)) else (spawned, finish data))"

text \<open>\<open>body.get(name, "").strip()\<close>.\<close>

definition field :: "json \<Rightarrow> pystr \<Rightarrow> exn + pystr" where
  "field body name =
     (case py_get body name (JStr []) of Inl e \<Rightarrow> Inl e | Inr v \<Rightarrow> py_strip v)"

definition msg_empty :: pystr where
  "msg_empty = ascii '' '' @ [0x4E0D, 0x80FD, 0x4E3A, 0x7A7A]"

text \<open>\<open>x or y\<close>, and \<open>x.encode("utf-8")\<close>, which only a \<open>str\<close> has.\<close>

definition py_or :: "json \<Rightarrow> json \<Rightarrow> json" where
  "py_or x y = (if truthy x then x else y)"

fun py_encode_utf8 :: "json \<Rightarrow> exn + bytes" where
  "py_encode_utf8 (JStr s) =
     (case utf8_encode s of None \<Rightarrow> Inl UnicodeEncodeError | Some bs \<Rightarrow> Inr bs)"
| "py_encode_utf8 _ = Inl AttributeError"

section \<open>The request handlers\<close>

text \<open>
  Each handler takes the configuration, the environment and (for a POST route) the
  request, and returns the processes it spawned and either the JSON body of its
  response or the exception that left it.
\<close>

definition total_supply :: "config \<Rightarrow> env \<Rightarrow> spawn list \<times> (exn + json)" where
  "total_supply cfg world =
     invoke cfg world (ascii ''TotalSupply'') None (query_response (JStr (ascii ''MA=='')))"

definition owner_of :: "config \<Rightarrow> env \<Rightarrow> json option \<Rightarrow> spawn list \<times> (exn + json)" where
  "owner_of cfg world request =
     (case get_json request of
        Inl e \<Rightarrow> ([], Inl e)
      | Inr body \<Rightarrow>
          (case field body (ascii ''tokenId'') of
             Inl e \<Rightarrow> ([], Inl e)
           | Inr token_id \<Rightarrow>
               if token_id = [] then ([], Inr (err (JStr (ascii ''tokenId'' @ msg_empty))))
               else invoke cfg world (ascii ''OwnerOf'')
                      (Some [(ascii ''tokenId'', JStr token_id)]) (query_response (JStr []))))"

definition token_uri :: "config \<Rightarrow> env \<Rightarrow> json option \<Rightarrow> spawn list \<times> (exn + json)" where
  "token_uri cfg world request =
     (case get_json request of
        Inl e \<Rightarrow> ([], Inl e)
      | Inr body \<Rightarrow>
          (case field body (ascii ''tokenId'') of
             Inl e \<Rightarrow> ([], Inl e)
           | Inr token_id \<Rightarrow>
               if token_id = [] then ([], Inr (err (JStr (ascii ''tokenId'' @ msg_empty))))
               else invoke cfg world (ascii ''TokenURI'')
                      (Some [(ascii ''tokenId'', JStr token_id)]) (query_response (JStr []))))"

definition balance_of :: "config \<Rightarrow> env \<Rightarrow> json option \<Rightarrow> spawn list \<times> (exn + json)" where
  "balance_of cfg world request =
     (case get_json request of
        Inl e \<Rightarrow> ([], Inl e)
      | Inr body \<Rightarrow>
          (case field body (ascii ''account'') of
             Inl e \<Rightarrow> ([], Inl e)
           | Inr account \<Rightarrow>
               if account = [] then ([], Inr (err (JStr (ascii ''account'' @ msg_empty))))
               else invoke cfg world (ascii ''BalanceOf'')
                      (Some [(ascii ''account'', JStr account)])
                      (query_response (JStr (ascii ''MA=='')))))"

text \<open>
  \<open>mint\<close> reads and encodes \<open>metadata_text\<close> before it validates the three required
  fields, as the source does.
\<close>

definition mint :: "config \<Rightarrow> env \<Rightarrow> json option \<Rightarrow> spawn list \<times> (exn + json)" where
  "mint cfg world request =
     (case get_json request of
        Inl e \<Rightarrow> ([], Inl e)
      | Inr b \<Rightarrow>
     (case field b (ascii ''to'') of
        Inl e \<Rightarrow> ([], Inl e)
      | Inr to_ \<Rightarrow>
     (case field b (ascii ''tokenId'') of
        Inl e \<Rightarrow> ([], Inl e)
      | Inr token_id \<Rightarrow>
     (case field b (ascii ''categoryName'') of
        Inl e \<Rightarrow> ([], Inl e)
      | Inr category \<Rightarrow>
     (case py_get b (ascii ''metadata_text'') JNull of
        Inl e \<Rightarrow> ([], Inl e)
      | Inr text_or_none \<Rightarrow>
     (case py_encode_utf8 (py_or text_or_none (JStr [])) of
        Inl e \<Rightarrow> ([], Inl e)
      | Inr metadata_text \<Rightarrow>
     (case py_get b (ascii ''metadata_b64'') JNull of
        Inl e \<Rightarrow> ([], Inl e)
      | Inr metadata_b64 \<Rightarrow>
          if \<not> (to_ \<noteq> [] \<and> token_id \<noteq> [] \<and> category \<noteq> []) then
            ([], Inr (err (JStr (ascii ''to / tokenId / categoryName'' @ msg_empty))))
          else
            (let meta =
                   (if truthy metadata_b64 then metadata_b64
                    else JStr (if metadata_text \<noteq> [] then b64encode metadata_text else []))
             in invoke cfg world (ascii ''Mint'')
                  (Some [(ascii ''to'', JStr to_), (ascii ''tokenId'', JStr token_id),
                         (ascii ''categoryName'', JStr category), (ascii ''metadata'', meta)])
                  pretty_response))))))))"

definition transfer_from :: "config \<Rightarrow> env \<Rightarrow> json option \<Rightarrow> spawn list \<times> (exn + json)" where
  "transfer_from cfg world request =
     (case get_json request of
        Inl e \<Rightarrow> ([], Inl e)
      | Inr b \<Rightarrow>
     (case field b (ascii ''from'') of
        Inl e \<Rightarrow> ([], Inl e)
      | Inr from_addr \<Rightarrow>
     (case field b (ascii ''to'') of
        Inl e \<Rightarrow> ([], Inl e)
      | Inr to_addr \<Rightarrow>
     (case field b (ascii ''tokenId'') of
        Inl e \<Rightarrow> ([], Inl e)
      | Inr token_id \<Rightarrow>
          if \<not> (from_addr \<noteq> [] \<and> to_addr \<noteq> [] \<and> token_id \<noteq> []) then
            ([], Inr (err (JStr (ascii ''from / to / tokenId'' @ msg_empty))))
          else invoke cfg world (ascii ''TransferFrom'')
                 (Some [(ascii ''from'', JStr from_addr), (ascii ''to'', JStr to_addr),
                        (ascii ''tokenId'', JStr token_id)])
                 pretty_response))))"

definition burn :: "config \<Rightarrow> env \<Rightarrow> json option \<Rightarrow> spawn list \<times> (exn + json)" where
  "burn cfg world request =
     (case get_json request of
        Inl e \<Rightarrow> ([], Inl e)
      | Inr b \<Rightarrow>
          (case field b (ascii ''tokenId'') of
             Inl e \<Rightarrow> ([], Inl e)
           | Inr token_id \<Rightarrow>
               if token_id = [] then ([], Inr (err (JStr (ascii ''tokenId'' @ msg_empty))))
               else invoke cfg world (ascii ''Burn'')
                      (Some [(ascii ''tokenId'', JStr token_id)]) pretty_response))"

text \<open>
  \<open>create_or_set_category\<close> passes one parameter, the JSON text of the two fields,
  written by \<open>json.dumps\<close> with its default separators.
\<close>

definition create_or_set_category ::
  "config \<Rightarrow> env \<Rightarrow> json option \<Rightarrow> spawn list \<times> (exn + json)" where
  "create_or_set_category cfg world request =
     (case get_json request of
        Inl e \<Rightarrow> ([], Inl e)
      | Inr b \<Rightarrow>
     (case field b (ascii ''categoryName'') of
        Inl e \<Rightarrow> ([], Inl e)
      | Inr name \<Rightarrow>
     (case field b (ascii ''categoryURI'') of
        Inl e \<Rightarrow> ([], Inl e)
      | Inr uri \<Rightarrow>
          if \<not> (name \<noteq> [] \<and> uri \<noteq> []) then
            ([], Inr (err (JStr (ascii ''categoryName / categoryURI'' @ msg_empty))))
          else
            (let category_json =
                   json_dumps (ascii '', '') (ascii '': '')
                     (JObj [(ascii ''categoryName'', JStr name), (ascii ''categoryURI'', JStr uri)])
             in invoke cfg world (ascii ''CreateOrSetCategory'')
                  (Some [(ascii ''category'', JStr category_json)]) pretty_response))))"

text \<open>
  The routes of the business endpoints. \<open>total-supply\<close> is a GET route and reads no
  body.
\<close>

datatype endpoint =
    TotalSupply
  | OwnerOf
  | TokenURI
  | BalanceOf
  | Mint
  | TransferFrom
  | Burn
  | CreateOrSetCategory

fun handle :: "config \<Rightarrow> env \<Rightarrow> endpoint \<Rightarrow> json option \<Rightarrow> spawn list \<times> (exn + json)" where
  "handle cfg world TotalSupply request = total_supply cfg world"
| "handle cfg world OwnerOf request = owner_of cfg world request"
| "handle cfg world TokenURI request = token_uri cfg world request"
| "handle cfg world BalanceOf request = balance_of cfg world request"
| "handle cfg world Mint request = mint cfg world request"
| "handle cfg world TransferFrom request = transfer_from cfg world request"
| "handle cfg world Burn request = burn cfg world request"
| "handle cfg world CreateOrSetCategory request = create_or_set_category cfg world request"

section \<open>Notions used to state the properties\<close>

text \<open>
  The two checks \<open>exec_cmc\<close> makes before it runs the client (source lines 64 and 66).
\<close>

definition preconditions :: "config \<Rightarrow> env \<Rightarrow> bool" where
  "preconditions cfg world =
     (path_exists world (path_join (WORK_DIR cfg) (basename (CMC_BIN cfg)))
      \<and> path_exists world (path_join (WORK_DIR cfg) (SDK_CONF_PATH cfg)))"

text \<open>
  The command line as the specification writes it:
  \<open><binary> client contract user invoke --contract-name=<name> --method=<method>
  --sdk-conf-path=<path> --sync-result=<true|false> [--params=<compact-json>]\<close>.
\<close>

definition spec_command_line ::
  "config \<Rightarrow> pystr \<Rightarrow> (pystr \<times> json) list option \<Rightarrow> bool \<Rightarrow> pystr list" where
  "spec_command_line cfg method params sync =
     [CMC_BIN cfg, ascii ''client'', ascii ''contract'', ascii ''user'', ascii ''invoke'',
      ascii ''--contract-name='' @ CONTRACT_NAME cfg,
      ascii ''--method='' @ method,
      ascii ''--sdk-conf-path='' @ SDK_CONF_PATH cfg,
      ascii ''--sync-result='' @ ascii (if sync then ''true'' else ''false'')]
     @ (if params = None \<or> params = Some [] then []
        else [ascii ''--params='' @ json_dumps (ascii '','') (ascii '':'') (JObj (the params))])"

text \<open>The fields each handler validates, the contract method it invokes, and how it ends.\<close>

fun required_fields :: "endpoint \<Rightarrow> pystr list" where
  "required_fields TotalSupply = []"
| "required_fields OwnerOf = [ascii ''tokenId'']"
| "required_fields TokenURI = [ascii ''tokenId'']"
| "required_fields BalanceOf = [ascii ''account'']"
| "required_fields Mint = [ascii ''to'', ascii ''tokenId'', ascii ''categoryName'']"
| "required_fields TransferFrom = [ascii ''from'', ascii ''to'', ascii ''tokenId'']"
| "required_fields Burn = [ascii ''tokenId'']"
| "required_fields CreateOrSetCategory = [ascii ''categoryName'', ascii ''categoryURI'']"

fun method_name :: "endpoint \<Rightarrow> pystr" where
  "method_name TotalSupply = ascii ''TotalSupply''"
| "method_name OwnerOf = ascii ''OwnerOf''"
| "method_name TokenURI = ascii ''TokenURI''"
| "method_name BalanceOf = ascii ''BalanceOf''"
| "method_name Mint = ascii ''Mint''"
| "method_name TransferFrom = ascii ''TransferFrom''"
| "method_name Burn = ascii ''Burn''"
| "method_name CreateOrSetCategory = ascii ''CreateOrSetCategory''"

fun is_write :: "endpoint \<Rightarrow> bool" where
  "is_write Mint = True"
| "is_write TransferFrom = True"
| "is_write Burn = True"
| "is_write CreateOrSetCategory = True"
| "is_write _ = False"

fun finish :: "endpoint \<Rightarrow> json \<Rightarrow> exn + json" where
  "finish TotalSupply = query_response (JStr (ascii ''MA==''))"
| "finish BalanceOf = query_response (JStr (ascii ''MA==''))"
| "finish OwnerOf = query_response (JStr [])"
| "finish TokenURI = query_response (JStr [])"
| "finish ep = pretty_response"

text \<open>
  A request body that is a JSON object, read the way the handlers read it:
  \<open>lookup kvs name d\<close> is \<open>body.get(name, d)\<close>, \<open>submitted\<close> the value of a string field
  (\<open>""\<close> when it is missing), \<open>trimmed\<close> its stripped text.
\<close>

definition lookup :: "(pystr \<times> json) list \<Rightarrow> pystr \<Rightarrow> json \<Rightarrow> json" where
  "lookup kvs name d = (case map_of kvs name of None \<Rightarrow> d | Some v \<Rightarrow> v)"

fun is_str :: "json \<Rightarrow> bool" where
  "is_str (JStr s) = True"
| "is_str _ = False"

fun str_of :: "json \<Rightarrow> pystr" where
  "str_of (JStr s) = s"
| "str_of _ = []"

definition submitted :: "(pystr \<times> json) list \<Rightarrow> pystr \<Rightarrow> json" where
  "submitted kvs name = lookup kvs name (JStr [])"

definition trimmed :: "(pystr \<times> json) list \<Rightarrow> pystr \<Rightarrow> pystr" where
  "trimmed kvs name = strip (str_of (submitted kvs name))"

text \<open>
  The free text of a mint request, \<open>b.get("metadata_text") or ""\<close>, is well formed when
  it is a string that UTF-8 can encode, that is, one without surrogate code points.
\<close>

definition metadata_text_of :: "(pystr \<times> json) list \<Rightarrow> json" where
  "metadata_text_of kvs = py_or (lookup kvs (ascii ''metadata_text'') JNull) (JStr [])"

definition encodable :: "json \<Rightarrow> bool" where
  "encodable v = (is_str v \<and> utf8_encode (str_of v) \<noteq> None)"

text \<open>
  A body is well typed for an endpoint when every required field it holds is a string
  and, for \<open>mint\<close>, the free text is well formed.
\<close>

definition well_typed :: "endpoint \<Rightarrow> (pystr \<times> json) list \<Rightarrow> bool" where
  "well_typed ep kvs =
     (list_all (\<lambda>f. is_str (submitted kvs f)) (required_fields ep)
      \<and> (if ep = Mint then encodable (metadata_text_of kvs) else True))"

text \<open>The message of a rejected request: the required fields, then "must not be empty".\<close>

definition validation_message :: "endpoint \<Rightarrow> pystr" where
  "validation_message ep = join (ascii '' / '') (required_fields ep) @ msg_empty"

text \<open>
  The parameters of an accepted request, from a reading \<open>v\<close> of its required fields and
  the metadata parameter of \<open>mint\<close>.
\<close>

fun params_of :: "endpoint \<Rightarrow> (pystr \<Rightarrow> pystr) \<Rightarrow> json \<Rightarrow> (pystr \<times> json) list option" where
  "params_of TotalSupply v meta = None"
| "params_of Mint v meta =
     Some [(ascii ''to'', JStr (v (ascii ''to''))), (ascii ''tokenId'', JStr (v (ascii ''tokenId''))),
           (ascii ''categoryName'', JStr (v (ascii ''categoryName''))), (ascii ''metadata'', meta)]"
| "params_of CreateOrSetCategory v meta =
     Some [(ascii ''category'',
            JStr (json_dumps (ascii '', '') (ascii '': '')
                    (JObj [(ascii ''categoryName'', JStr (v (ascii ''categoryName''))),
                           (ascii ''categoryURI'', JStr (v (ascii ''categoryURI'')))])))]"
| "params_of ep v meta = Some (map (\<lambda>f. (f, JStr (v f))) (required_fields ep))"

text \<open>
  The metadata parameter as the specification describes it: a supplied \<open>metadata_b64\<close>
  unchanged, otherwise the base64 text of the UTF-8 bytes of the free text.
\<close>

definition spec_metadata :: "(pystr \<times> json) list \<Rightarrow> json" where
  "spec_metadata kvs =
     (if truthy (lookup kvs (ascii ''metadata_b64'') JNull)
      then lookup kvs (ascii ''metadata_b64'') JNull
      else JStr (b64encode (the (utf8_encode (str_of (metadata_text_of kvs))))))"

text \<open>
  The \<open>contract_result\<close> of a parsed output: the empty dictionary when the key is
  missing, \<open>None\<close> when its value is not a dictionary.
\<close>

definition contract_result :: "(pystr \<times> json) list \<Rightarrow> (pystr \<times> json) list option" where
  "contract_result d =
     (case map_of d (ascii ''contract_result'') of
        None \<Rightarrow> Some []
      | Some (JObj cr) \<Rightarrow> Some cr
      | Some _ \<Rightarrow> None)"

text \<open>Environments and configurations for the concrete cases below.\<close>

definition world_const :: "run_result \<Rightarrow> json option \<Rightarrow> env" where
  "world_const r j =
     \<lparr>path_exists = (\<lambda>p. True), subprocess_run = (\<lambda>cmd cwd t. r), json_loads = (\<lambda>s. j)\<rparr>"

definition world_files :: "pystr list \<Rightarrow> run_result \<Rightarrow> env" where
  "world_files files r =
     \<lparr>path_exists = (\<lambda>p. p \<in> set files), subprocess_run = (\<lambda>cmd cwd t. r),
      json_loads = (\<lambda>s. None)\<rparr>"

definition small_config :: config where
  "small_config =
     \<lparr>CONTRACT_NAME = ascii ''CMNFA'', SDK_CONF_PATH = ascii ''sdk.yml'',
      CMC_BIN = ascii ''./cmc'', WORK_DIR = ascii ''/w''\<rparr>"

text \<open>Request bodies and a parsed client output for the concrete cases below.\<close>

definition body_token7 :: "(pystr \<times> json) list" where
  "body_token7 = [(ascii ''tokenId'', JStr (ascii ''7''))]"

definition body_owner_padded :: "(pystr \<times> json) list" where
  "body_owner_padded = [(ascii ''tokenId'', JStr (ascii '' 7 ''))]"

definition body_transfer_blank :: "(pystr \<times> json) list" where
  "body_transfer_blank =
     [(ascii ''from'', JStr (ascii ''alice'')), (ascii ''to'', JStr (ascii ''  '')),
      (ascii ''tokenId'', JStr (ascii ''7''))]"

definition body_transfer_number :: "(pystr \<times> json) list" where
  "body_transfer_number = [(ascii ''from'', JStr (ascii ''alice'')), (ascii ''tokenId'', JInt 7)]"

definition body_mint_hello :: "(pystr \<times> json) list" where
  "body_mint_hello =
     [(ascii ''to'', JStr (ascii ''bob'')), (ascii ''tokenId'', JStr (ascii ''1'')),
      (ascii ''categoryName'', JStr (ascii ''art'')),
      (ascii ''metadata_text'', JStr (ascii ''hello''))]"

definition body_mint_blank_to :: "(pystr \<times> json) list" where
  "body_mint_blank_to =
     [(ascii ''to'', JStr (ascii '' '')), (ascii ''tokenId'', JStr (ascii ''1'')),
      (ascii ''categoryName'', JStr (ascii ''art'')),
      (ascii ''metadata_text'', JStr (ascii ''hello''))]"

definition body_mint_surrogate :: "(pystr \<times> json) list" where
  "body_mint_surrogate =
     [(ascii ''tokenId'', JStr (ascii ''1'')), (ascii ''categoryName'', JStr (ascii ''art'')),
      (ascii ''metadata_text'', JStr [0xD800])]"

definition chain_output :: "(pystr \<times> json) list" where
  "chain_output =
     [(ascii ''contract_result'',
         JObj [(ascii ''message'', JStr (ascii ''MA=='')),
               (ascii ''contract_event'',
                  JArr [JObj [(ascii ''topic'', JStr (ascii ''burn''))],
                        JObj [(ascii ''topic'', JStr (ascii ''audit''))]])]),
      (ascii ''tx_id'', JStr (ascii ''17a4'')),
      (ascii ''tx_block_height'', JInt 12)]"

text \<open>
  A configuration whose client binary lies in a subdirectory of the working directory,
  as \<open>CM_CMC_BIN=bin/cmc\<close> sets it.
\<close>

definition subdir_config :: config where
  "subdir_config =
     \<lparr>CONTRACT_NAME = ascii ''CMNFA'', SDK_CONF_PATH = ascii ''sdk.yml'',
      CMC_BIN = ascii ''bin/cmc'', WORK_DIR = ascii ''/w''\<rparr>"

text \<open>
  The command line a handler runs for an accepted body, the default each query handler
  passes to \<open>.get("result", ...)\<close>, and the data of a successful response: the
  dictionary of the write handlers, the decoded result of the query handlers.
\<close>

definition command_of :: "config \<Rightarrow> endpoint \<Rightarrow> (pystr \<times> json) list \<Rightarrow> pystr list" where
  "command_of cfg ep kvs =
     spec_command_line cfg (method_name ep)
       (params_of ep (trimmed kvs) (spec_metadata kvs)) True"

fun default_result :: "endpoint \<Rightarrow> json" where
  "default_result TotalSupply = JStr (ascii ''MA=='')"
| "default_result BalanceOf = JStr (ascii ''MA=='')"
| "default_result ep = JStr []"

definition success_data :: "endpoint \<Rightarrow> json \<Rightarrow> json" where
  "success_data ep data =
     (case data of
        JObj d \<Rightarrow>
          (case contract_result d of
             Some cr \<Rightarrow>
               if is_write ep then
                 JObj [(ascii ''message'', lookup cr (ascii ''message'') (JStr [])),
                       (ascii ''events'', lookup cr (ascii ''contract_event'') (JArr [])),
                       (ascii ''tx_id'', lookup d (ascii ''tx_id'') JNull),
                       (ascii ''block_height'', lookup d (ascii ''tx_block_height'') JNull)]
               else decode_result (lookup cr (ascii ''result'') (default_result ep))
           | None \<Rightarrow> JNull)
      | _ \<Rightarrow> JNull)"

text \<open>Further request bodies and outputs for the concrete cases.\<close>

definition body_transfer_ok :: "(pystr \<times> json) list" where
  "body_transfer_ok =
     [(ascii ''from'', JStr (ascii ''alice'')), (ascii ''to'', JStr (ascii ''bob'')),
      (ascii ''tokenId'', JStr (ascii ''7''))]"

definition body_category :: "(pystr \<times> json) list" where
  "body_category =
     [(ascii ''categoryName'', JStr (ascii ''art'')),
      (ascii ''categoryURI'', JStr (ascii ''https://example.org/nfa''))]"

definition body_mint_number_text :: "(pystr \<times> json) list" where
  "body_mint_number_text =
     [(ascii ''to'', JStr []), (ascii ''tokenId'', JStr (ascii ''1'')),
      (ascii ''categoryName'', JStr (ascii ''art'')), (ascii ''metadata_text'', JInt 5)]"

definition chain_output_null :: "(pystr \<times> json) list" where
  "chain_output_null =
     [(ascii ''contract_result'', JNull), (ascii ''tx_id'', JStr (ascii ''17a4''))]"

text \<open>The response data that belongs to \<open>chain_output\<close>.\<close>

definition chain_data :: json where
  "chain_data =
     JObj [(ascii ''message'', JStr (ascii ''MA=='')),
           (ascii ''events'',
              JArr [JObj [(ascii ''topic'', JStr (ascii ''burn''))],
                    JObj [(ascii ''topic'', JStr (ascii ''audit''))]]),
           (ascii ''tx_id'', JStr (ascii ''17a4'')),
           (ascii ''block_height'', JInt 12)]"

section \<open>Base64 detection and decoding\<close>

text \<open>The equations that evaluate the base64 and UTF-8 functions on a literal.\<close>

lemmas b64_eval =
  decode_result_def is_base64_def base64_charset_def b64decode_def a2b_base64_def
  BASE64_PAD_def table_a2b_base64_def table_b2a_base64_def b64_alphabet_def
  utf8_encode_cp_def is_cont_def cont_bits_def ascii_def

text \<open>
  The validating decode only adds failures to the plain one: where it succeeds, the
  plain decode of \<open>_decode_result\<close> returns the same bytes.
\<close>

lemma a2b_loop_strict_lenient:
  "a2b_loop True cs q l p st out = Some r \<Longrightarrow> a2b_loop False cs q l p st out = Some r"
  by (induction cs arbitrary: q l p st out) (auto split: if_splits option.splits)

lemma a2b_base64_strict_lenient:
  "a2b_base64 d True = Some r \<Longrightarrow> a2b_base64 d False = Some r"
  by (auto simp: a2b_base64_def a2b_loop_strict_lenient split: if_splits)

lemma b64decode_strict_lenient:
  "b64decode s True = Some r \<Longrightarrow> b64decode s False = Some r"
  by (auto simp: b64decode_def a2b_base64_strict_lenient split: if_splits)

lemma list_ex_not_all: "list_ex (\<lambda>c. c \<notin> A) s = (\<not> list_all (\<lambda>c. c \<in> A) s)"
  by (induction s) auto

text \<open>
  Claim C3, as the code has it: for every string \<open>s\<close>, \<open>_decode_result\<close> returns the
  UTF-8 text of the base64-decoded bytes exactly when \<open>s\<close> is non-empty, made only of
  the base64 alphabet, \<open>=\<close>, line feed and carriage return, the validating base64 decode
  of \<open>s\<close> succeeds, and the decoded bytes are well-formed UTF-8; in every other case it
  returns \<open>s\<close> unchanged. The last condition is not in the claim.
\<close>

theorem decode_result_base64:
  "decode_result (JStr s) =
     (if s \<noteq> [] \<and> list_all (\<lambda>c. c \<in> set base64_charset) s
         \<and> b64decode s True \<noteq> None
         \<and> utf8_decode (the (b64decode s True)) \<noteq> None
      then JStr (the (utf8_decode (the (b64decode s True))))
      else JStr s)"
proof (cases "is_base64 s")
  case False
  then show ?thesis
    by (auto simp: decode_result_def is_base64_def list_ex_not_all
             split: option.splits if_splits)
next
  case True
  then obtain bs where bs: "b64decode s True = Some bs"
    and ne: "s \<noteq> []" and cs: "list_all (\<lambda>c. c \<in> set base64_charset) s"
    by (auto simp: is_base64_def list_ex_not_all split: option.splits if_splits)
  from bs have "b64decode s False = Some bs"
    by (rule b64decode_strict_lenient)
  with True bs ne cs show ?thesis
    by (auto simp: decode_result_def split: option.splits)
qed

text \<open>
  At \<open>"MA=="\<close> the result is \<open>"0"\<close>, and \<open>"not-base64-!!"\<close> comes back unchanged.
\<close>

theorem decode_result_base64_witness:
  "decode_result (JStr (ascii ''MA=='')) = JStr (ascii ''0'')
   \<and> decode_result (JStr (ascii ''not-base64-!!'')) = JStr (ascii ''not-base64-!!'')"
  using decode_result_base64 [of "ascii ''MA==''"]
        decode_result_base64 [of "ascii ''not-base64-!!''"]
  by (simp add: b64_eval)

text \<open>
  The claim as written fails at \<open>"/w=="\<close>: the string is non-empty, within the character
  set, and the validating decode succeeds (one byte, 255), but that byte is not UTF-8
  text, and the string is returned unchanged.
\<close>

theorem decode_result_invalid_utf8:
  "ascii ''/w=='' \<noteq> []
   \<and> list_all (\<lambda>c. c \<in> set base64_charset) (ascii ''/w=='')
   \<and> b64decode (ascii ''/w=='') True = Some [0xFF]
   \<and> utf8_decode [0xFF] = None
   \<and> decode_result (JStr (ascii ''/w=='')) = JStr (ascii ''/w=='')"
  by (simp add: b64_eval)

section \<open>Properties of the execution wrapper\<close>

text \<open>
  The processes \<open>exec_cmc\<close> spawns: one, with the command line of the specification,
  when both files are found, and none otherwise.
\<close>

lemma exec_cmc_spawns:
  "fst (exec_cmc cfg world method params sync timeout) =
     (if preconditions cfg world
      then [(spec_command_line cfg method params sync, WORK_DIR cfg, timeout)] else [])"
  by (cases params) (auto simp: exec_cmc_def Let_def spec_command_line_def preconditions_def)

text \<open>The pair \<open>exec_cmc\<close> returns once the process has been spawned.\<close>

lemma exec_cmc_result:
  assumes "fst (exec_cmc cfg world method params sync timeout) = [(cmd, cwd, t)]"
  shows "snd (exec_cmc cfg world method params sync timeout) =
     (case subprocess_run world cmd cwd t of
        Completed rc out er \<Rightarrow>
          if rc \<noteq> 0 then (False, JStr (failure_message rc (strip out) (strip er)))
          else (True, (case json_loads world (strip out) of
                         None \<Rightarrow> JStr (strip out) | Some d \<Rightarrow> d))
      | TimeoutExpired \<Rightarrow> (False, JStr msg_timeout)
      | RunException e \<Rightarrow> (False, JStr (msg_exception @ e)))"
  using assms
  by (auto simp: exec_cmc_def Let_def split: if_splits run_result.splits)

text \<open>\<open>exec_cmc\<close> written out over the command line of the specification.\<close>

lemma exec_cmc_eq:
  "exec_cmc cfg world method params sync timeout =
     (if \<not> path_exists world (path_join (WORK_DIR cfg) (basename (CMC_BIN cfg))) then
        ([], False, JStr (msg_no_cmc @ path_join (WORK_DIR cfg) (CMC_BIN cfg)))
      else if \<not> path_exists world (path_join (WORK_DIR cfg) (SDK_CONF_PATH cfg)) then
        ([], False, JStr (msg_no_sdk @ path_join (WORK_DIR cfg) (SDK_CONF_PATH cfg)))
      else
        ([(spec_command_line cfg method params sync, WORK_DIR cfg, timeout)],
         (case subprocess_run world (spec_command_line cfg method params sync)
                 (WORK_DIR cfg) timeout of
            Completed rc out er \<Rightarrow>
              if rc \<noteq> 0 then (False, JStr (failure_message rc (strip out) (strip er)))
              else (True, (case json_loads world (strip out) of
                             None \<Rightarrow> JStr (strip out) | Some d \<Rightarrow> d))
          | TimeoutExpired \<Rightarrow> (False, JStr msg_timeout)
          | RunException e \<Rightarrow> (False, JStr (msg_exception @ e)))))"
proof -
  have c: "[CMC_BIN cfg, ascii ''client'', ascii ''contract'', ascii ''user'', ascii ''invoke'',
             ascii ''--contract-name='' @ CONTRACT_NAME cfg,
             ascii ''--method='' @ method,
             ascii ''--sdk-conf-path='' @ SDK_CONF_PATH cfg,
             ascii ''--sync-result='' @ (if sync then ascii ''true'' else ascii ''false'')]
            @ (case params of
                 None \<Rightarrow> []
               | Some kvs \<Rightarrow>
                   if kvs \<noteq> []
                   then [ascii ''--params='' @ json_dumps (ascii '','') (ascii '':'') (JObj kvs)]
                   else [])
           = spec_command_line cfg method params sync"
    by (cases params) (auto simp: spec_command_line_def)
  show ?thesis
    unfolding exec_cmc_def Let_def c
    by (simp split: run_result.splits)
qed

lemma preconditions_world_const: "preconditions cfg (world_const r j)"
  by (simp add: preconditions_def world_const_def)

lemma fst_invoke:
  "fst (invoke cfg world m p f) = fst (exec_cmc cfg world m p True default_timeout)"
  by (simp add: invoke_def split: prod.splits)

lemma snd_invoke:
  "snd (invoke cfg world m p f) =
     (if fst (snd (exec_cmc cfg world m p True default_timeout))
      then f (snd (snd (exec_cmc cfg world m p True default_timeout)))
      else Inr (err (snd (snd (exec_cmc cfg world m p True default_timeout)))))"
  by (simp add: invoke_def split: prod.splits)

lemma invoke_success:
  assumes "fst (invoke cfg world m p f) = [(cmd, cwd, t)]"
    and "subprocess_run world cmd cwd t = Completed 0 out er"
    and "json_loads world (strip out) = Some d"
  shows "snd (invoke cfg world m p f) = f d"
proof -
  from assms(1) have "fst (exec_cmc cfg world m p True default_timeout) = [(cmd, cwd, t)]"
    by (simp add: fst_invoke)
  from exec_cmc_result [OF this] assms(2,3)
  have "snd (exec_cmc cfg world m p True default_timeout) = (True, d)" by simp
  then show ?thesis by (simp add: snd_invoke)
qed

text \<open>A handler that spawned a process is past its validation and inside \<open>invoke\<close>.\<close>

lemma handle_spawned:
  assumes "fst (handle cfg world ep request) \<noteq> []"
  shows "\<exists>p. handle cfg world ep request = invoke cfg world (method_name ep) p (finish ep)"
proof (cases ep)
  case TotalSupply
  then show ?thesis by (auto simp: total_supply_def)
next
  case OwnerOf
  with assms show ?thesis
    by (auto simp: owner_of_def split: sum.splits if_splits)
next
  case TokenURI
  with assms show ?thesis
    by (auto simp: token_uri_def split: sum.splits if_splits)
next
  case BalanceOf
  with assms show ?thesis
    by (auto simp: balance_of_def split: sum.splits if_splits)
next
  case Mint
  with assms show ?thesis
    by (auto simp: mint_def Let_def split: sum.splits if_splits)
next
  case TransferFrom
  with assms show ?thesis
    by (auto simp: transfer_from_def split: sum.splits if_splits)
next
  case Burn
  with assms show ?thesis
    by (auto simp: burn_def split: sum.splits if_splits)
next
  case CreateOrSetCategory
  with assms show ?thesis
    by (auto simp: create_or_set_category_def Let_def split: sum.splits if_splits)
qed

lemma handle_spawn_list:
  "fst (handle cfg world ep request) = []
   \<or> (\<exists>p. fst (handle cfg world ep request) =
             [(spec_command_line cfg (method_name ep) p True, WORK_DIR cfg, default_timeout)])"
proof (cases "fst (handle cfg world ep request) = []")
  case True
  then show ?thesis by simp
next
  case False
  then obtain p where
    "handle cfg world ep request = invoke cfg world (method_name ep) p (finish ep)"
    using handle_spawned by blast
  with False show ?thesis
    by (auto simp: fst_invoke exec_cmc_spawns split: if_splits)
qed

text \<open>
  Claim C8: for every invocation request, the process \<open>exec_cmc\<close> runs (it runs one
  exactly when both files are found) has the command line
  \<open><binary> client contract user invoke --contract-name=<name> --method=<method>
  --sdk-conf-path=<path> --sync-result=<true|false>\<close>, followed by
  \<open>--params=<compact JSON>\<close> if and only if the parameters are a non-empty mapping; it
  runs in the configured working directory with the timeout passed, whose default is
  60, and every process a handler spawns runs there with timeout 60.
\<close>

theorem command_line_executed:
  "fst (exec_cmc cfg world method params sync timeout) =
     (if preconditions cfg world
      then [(spec_command_line cfg method params sync, WORK_DIR cfg, timeout)] else [])
   \<and> default_timeout = 60
   \<and> list_all (\<lambda>sp. fst (snd sp) = WORK_DIR cfg \<and> snd (snd sp) = 60)
        (fst (handle cfg world ep request))"
  using handle_spawn_list [of cfg world ep request]
  by (auto simp: exec_cmc_spawns default_timeout_def)

text \<open>
  Two command lines: with two parameters and \<open>sync\<close> false, the JSON text has no
  space after \<open>,\<close> or \<open>:\<close>; with an empty mapping there is no \<open>--params\<close>.
\<close>

theorem command_line_executed_witness:
  "fst (exec_cmc small_config (world_const TimeoutExpired None) (ascii ''Mint'')
          (Some [(ascii ''to'', JStr (ascii ''bob'')), (ascii ''tokenId'', JStr (ascii ''1''))])
          False 60)
     = [([ascii ''./cmc'', ascii ''client'', ascii ''contract'', ascii ''user'', ascii ''invoke'',
          ascii ''--contract-name=CMNFA'', ascii ''--method=Mint'',
          ascii ''--sdk-conf-path=sdk.yml'', ascii ''--sync-result=false'',
          ascii ''--params={\"to\":\"bob\",\"tokenId\":\"1\"}''], ascii ''/w'', 60)]
   \<and> fst (exec_cmc small_config (world_const TimeoutExpired None) (ascii ''TotalSupply'')
            (Some []) True 60)
     = [([ascii ''./cmc'', ascii ''client'', ascii ''contract'', ascii ''user'', ascii ''invoke'',
          ascii ''--contract-name=CMNFA'', ascii ''--method=TotalSupply'',
          ascii ''--sdk-conf-path=sdk.yml'', ascii ''--sync-result=true''], ascii ''/w'', 60)]"
proof -
  let ?W = "world_const TimeoutExpired None"
  note th = command_line_executed [THEN conjunct1]
  have 1: "fst (exec_cmc small_config ?W (ascii ''Mint'')
          (Some [(ascii ''to'', JStr (ascii ''bob'')), (ascii ''tokenId'', JStr (ascii ''1''))])
          False 60)
     = [([ascii ''./cmc'', ascii ''client'', ascii ''contract'', ascii ''user'', ascii ''invoke'',
          ascii ''--contract-name=CMNFA'', ascii ''--method=Mint'',
          ascii ''--sdk-conf-path=sdk.yml'', ascii ''--sync-result=false'',
          ascii ''--params={\"to\":\"bob\",\"tokenId\":\"1\"}''], ascii ''/w'', 60)]"
    unfolding th
    by (simp add: preconditions_world_const spec_command_line_def small_config_def
          encode_basestring_ascii_def escape_char_def ascii_def)
  have 2: "fst (exec_cmc small_config ?W (ascii ''TotalSupply'') (Some []) True 60)
     = [([ascii ''./cmc'', ascii ''client'', ascii ''contract'', ascii ''user'', ascii ''invoke'',
          ascii ''--contract-name=CMNFA'', ascii ''--method=TotalSupply'',
          ascii ''--sdk-conf-path=sdk.yml'', ascii ''--sync-result=true''], ascii ''/w'', 60)]"
    unfolding th
    by (simp add: preconditions_world_const spec_command_line_def small_config_def ascii_def)
  from 1 2 show ?thesis by (intro conjI)
qed

text \<open>
  Claim C6, as the code has it: for every run of the client that exits with a non-zero
  code, \<open>exec_cmc\<close> fails, and its message is the standard-error text with surrounding
  whitespace removed; if that is empty, the standard-output text with surrounding
  whitespace removed; if both are empty, the generic message followed by the exit code
  in decimal. The claim speaks of the texts themselves, not of their trimmed forms.
\<close>

theorem nonzero_exit_message:
  assumes "fst (exec_cmc cfg world method params sync timeout) = [(cmd, cwd, t)]"
    and "subprocess_run world cmd cwd t = Completed returncode out er"
    and "returncode \<noteq> 0"
  shows "snd (exec_cmc cfg world method params sync timeout) =
           (False, JStr (if strip er \<noteq> [] then strip er
                         else if strip out \<noteq> [] then strip out
                         else msg_exit_code @ str_of_int returncode))"
  using exec_cmc_result [OF assms(1)] assms(2,3) by (simp add: failure_message_def)

lemma str_of_int_2: "str_of_int 2 = ascii ''2''"
  by (simp add: str_of_int_def digits.simps ascii_def)

text \<open>
  Exit code 1 with \<open>insufficient permission\<close> and a line feed on standard error gives
  that text without the line feed; exit code 2 with no output gives the generic message.
\<close>

theorem nonzero_exit_message_witness:
  "fst (exec_cmc small_config
          (world_const (Completed 1 [] (ascii ''insufficient permission'' @ [10])) None)
          (ascii ''Burn'') None True 60)
     = [(spec_command_line small_config (ascii ''Burn'') None True, ascii ''/w'', 60)]
   \<and> snd (exec_cmc small_config
          (world_const (Completed 1 [] (ascii ''insufficient permission'' @ [10])) None)
          (ascii ''Burn'') None True 60)
     = (False, JStr (ascii ''insufficient permission''))
   \<and> snd (exec_cmc small_config (world_const (Completed 2 [] []) None)
            (ascii ''Burn'') None True 60)
     = (False, JStr (msg_exit_code @ ascii ''2''))"
proof -
  let ?W = "world_const (Completed 1 [] (ascii ''insufficient permission'' @ [10])) None"
  let ?V = "world_const (Completed 2 [] []) None"
  let ?cmd = "spec_command_line small_config (ascii ''Burn'') None True"
  have wd: "WORK_DIR small_config = ascii ''/w''"
    by (simp add: small_config_def)
  have s: "fst (exec_cmc small_config ?W (ascii ''Burn'') None True 60)
             = [(?cmd, ascii ''/w'', 60)]"
    by (simp add: exec_cmc_spawns preconditions_world_const wd)
  have s': "fst (exec_cmc small_config ?V (ascii ''Burn'') None True 60)
              = [(?cmd, ascii ''/w'', 60)]"
    by (simp add: exec_cmc_spawns preconditions_world_const wd)
  have r: "subprocess_run ?W ?cmd (ascii ''/w'') 60
             = Completed 1 [] (ascii ''insufficient permission'' @ [10])"
    by (simp add: world_const_def)
  have r': "subprocess_run ?V ?cmd (ascii ''/w'') 60 = Completed 2 [] []"
    by (simp add: world_const_def)
  have st: "strip (ascii ''insufficient permission'' @ [10]) = ascii ''insufficient permission''"
    "strip [] = []"
    by (simp_all add: strip_def is_whitespace_def ascii_def)
  from nonzero_exit_message [OF s r] have e:
    "snd (exec_cmc small_config ?W (ascii ''Burn'') None True 60)
       = (False, JStr (ascii ''insufficient permission''))"
    by (simp add: st) (simp add: ascii_def)
  from nonzero_exit_message [OF s' r'] have e':
    "snd (exec_cmc small_config ?V (ascii ''Burn'') None True 60)
       = (False, JStr (msg_exit_code @ ascii ''2''))"
    by (simp add: st str_of_int_2)
  from s e e' show ?thesis by (intro conjI)
qed

text \<open>
  The claim as written fails where the texts carry whitespace. With exit code 1, a
  standard error that is a single line feed (not empty) and \<open>boom\<close> on standard
  output, the message is \<open>boom\<close>; and a standard error \<open>denied\<close> followed by a line
  feed is reported without the line feed.
\<close>

theorem nonzero_exit_message_counterexample:
  "[10] \<noteq> ([] :: pystr)
   \<and> snd (exec_cmc small_config (world_const (Completed 1 (ascii ''boom'') [10]) None)
          (ascii ''Burn'') None True 60)
     = (False, JStr (ascii ''boom''))
   \<and> snd (exec_cmc small_config (world_const (Completed 1 [] (ascii ''denied'' @ [10])) None)
          (ascii ''Burn'') None True 60)
     = (False, JStr (ascii ''denied''))"
  by (simp add: exec_cmc_def world_const_def failure_message_def Let_def strip_def
        is_whitespace_def ascii_def)

text \<open>
  Claim C7 at a configuration whose binary is \<open>bin/cmc\<close> under the working directory
  \<open>/w\<close>. The check looks for \<open>/w/cmc\<close>, the base name under the working directory,
  while the message names \<open>/w/bin/cmc\<close>. With \<open>/w/cmc\<close> and the SDK file present and
  \<open>/w/bin/cmc\<close> absent, \<open>exec_cmc\<close> does not fail fast: it calls \<open>subprocess.run\<close> and
  reports the exception of the failed start. With \<open>/w/bin/cmc\<close> present and \<open>/w/cmc\<close>
  absent, it reports \<open>/w/bin/cmc\<close> as not found.
\<close>

theorem missing_binary_not_detected:
  "path_join (WORK_DIR subdir_config) (CMC_BIN subdir_config) = ascii ''/w/bin/cmc''
   \<and> \<not> path_exists
         (world_files [ascii ''/w/cmc'', ascii ''/w/sdk.yml''] (RunException (ascii ''[Errno 2]'')))
         (ascii ''/w/bin/cmc'')
   \<and> exec_cmc subdir_config
        (world_files [ascii ''/w/cmc'', ascii ''/w/sdk.yml''] (RunException (ascii ''[Errno 2]'')))
        (ascii ''TotalSupply'') None True 60
      = ([([ascii ''bin/cmc'', ascii ''client'', ascii ''contract'', ascii ''user'',
            ascii ''invoke'', ascii ''--contract-name=CMNFA'', ascii ''--method=TotalSupply'',
            ascii ''--sdk-conf-path=sdk.yml'', ascii ''--sync-result=true''], ascii ''/w'', 60)],
         False, JStr (msg_exception @ ascii ''[Errno 2]''))
   \<and> exec_cmc subdir_config
        (world_files [ascii ''/w/bin/cmc'', ascii ''/w/sdk.yml''] TimeoutExpired)
        (ascii ''TotalSupply'') None True 60
      = ([], False, JStr (msg_no_cmc @ ascii ''/w/bin/cmc''))"
  by (simp add: exec_cmc_def world_files_def subdir_config_def path_join_def basename_def
        Let_def ascii_def)

text \<open>
  What the two checks do guarantee: when the file named by the base name of the binary
  is not in the working directory, or the SDK file is not at its path under the working
  directory, no process is spawned and the call fails with a message that starts with
  the text for the artifact whose check failed.
\<close>

lemma exec_cmc_fails_fast:
  assumes "\<not> preconditions cfg world"
  shows "exec_cmc cfg world method params sync timeout =
     ([], False,
      JStr (if \<not> path_exists world (path_join (WORK_DIR cfg) (basename (CMC_BIN cfg)))
            then msg_no_cmc @ path_join (WORK_DIR cfg) (CMC_BIN cfg)
            else msg_no_sdk @ path_join (WORK_DIR cfg) (SDK_CONF_PATH cfg)))"
  using assms by (auto simp: exec_cmc_def preconditions_def Let_def)

section \<open>Properties of the requests: validation and parameters\<close>

lemma field_obj:
  "is_str (submitted kvs name) \<Longrightarrow> field (JObj kvs) name = Inr (trimmed kvs name)"
  by (cases "submitted kvs name") (auto simp: field_def submitted_def lookup_def trimmed_def)

lemma b64encode_Nil_if: "(if bs \<noteq> [] then b64encode bs else []) = b64encode bs"
  by simp

lemma encodableD:
  "encodable v \<Longrightarrow> py_encode_utf8 v = Inr (the (utf8_encode (str_of v)))"
  by (cases v) (auto simp: encodable_def)

text \<open>
  Every handler on a well-typed body: it rejects the request when a required field is
  missing or blank, and otherwise invokes its contract method with the trimmed fields.
\<close>

lemma handle_well_typed:
  assumes "well_typed ep kvs"
  shows "handle cfg world ep (Some (JObj kvs)) =
     (if list_ex (\<lambda>f. trimmed kvs f = []) (required_fields ep)
      then ([], Inr (err (JStr (validation_message ep))))
      else invoke cfg world (method_name ep)
             (params_of ep (trimmed kvs) (spec_metadata kvs)) (finish ep))"
proof (cases ep)
  case TotalSupply
  then show ?thesis by (simp add: total_supply_def)
next
  case OwnerOf
  with assms show ?thesis
    by (simp add: owner_of_def get_json_def field_obj well_typed_def validation_message_def
          ascii_def)
next
  case TokenURI
  with assms show ?thesis
    by (simp add: token_uri_def get_json_def field_obj well_typed_def validation_message_def
          ascii_def)
next
  case BalanceOf
  with assms show ?thesis
    by (simp add: balance_of_def get_json_def field_obj well_typed_def validation_message_def
          ascii_def)
next
  case Mint
  with assms have e: "encodable (metadata_text_of kvs)"
    and s: "is_str (submitted kvs (ascii ''to''))" "is_str (submitted kvs (ascii ''tokenId''))"
      "is_str (submitted kvs (ascii ''categoryName''))"
    by (simp_all add: well_typed_def)
  have m: "py_encode_utf8 (py_or (lookup kvs (ascii ''metadata_text'') JNull) (JStr []))
        = Inr (the (utf8_encode (str_of (metadata_text_of kvs))))"
    using encodableD [OF e] by (simp add: metadata_text_of_def)
  have g: "\<And>k d. py_get (JObj kvs) k d = Inr (lookup kvs k d)"
    by (simp add: lookup_def)
  have v: "validation_message Mint = ascii ''to / tokenId / categoryName'' @ msg_empty"
    by (simp add: validation_message_def ascii_def)
  show ?thesis
    unfolding Mint handle.simps mint_def get_json_def
    by (simp only: option.case sum.case field_obj [OF s(1)] field_obj [OF s(2)]
          field_obj [OF s(3)] g m v Let_def b64encode_Nil_if)
       (simp add: spec_metadata_def)
next
  case TransferFrom
  with assms show ?thesis
    by (simp add: transfer_from_def get_json_def field_obj well_typed_def
          validation_message_def ascii_def)
next
  case Burn
  with assms show ?thesis
    by (simp add: burn_def get_json_def field_obj well_typed_def validation_message_def
          ascii_def)
next
  case CreateOrSetCategory
  with assms show ?thesis
    by (simp add: create_or_set_category_def get_json_def field_obj well_typed_def
          validation_message_def ascii_def)
qed

lemma handle_accepted:
  assumes "well_typed ep kvs" and "list_all (\<lambda>f. trimmed kvs f \<noteq> []) (required_fields ep)"
  shows "handle cfg world ep (Some (JObj kvs)) =
           invoke cfg world (method_name ep)
             (params_of ep (trimmed kvs) (spec_metadata kvs)) (finish ep)"
proof -
  from assms(2) have "\<not> list_ex (\<lambda>f. trimmed kvs f = []) (required_fields ep)"
    by (simp add: list_all_iff list_ex_iff)
  with assms(1) show ?thesis by (simp add: handle_well_typed)
qed

lemma sublist_join: "f \<in> set fs \<Longrightarrow> sublist f (join sep fs)"
proof (induction sep fs rule: join.induct)
  case (1 sep)
  then show ?case by simp
next
  case (2 sep x)
  then show ?case by simp
next
  case (3 sep x y ys)
  show ?case
  proof (cases "f = x")
    case True
    then show ?thesis by simp
  next
    case False
    with 3 have "sublist f (join sep (y # ys))" by simp
    then obtain ps ss where "join sep (y # ys) = ps @ f @ ss"
      by (auto simp: sublist_def)
    then have "join sep (x # y # ys) = (x @ sep @ ps) @ f @ ss" by simp
    then show ?thesis unfolding sublist_def by blast
  qed
qed

lemma validation_message_names:
  "list_all (\<lambda>f. sublist f (validation_message ep)) (required_fields ep)"
proof -
  have "sublist f (validation_message ep)" if "f \<in> set (required_fields ep)" for f
  proof -
    from that have "sublist f (join (ascii '' / '') (required_fields ep))"
      by (rule sublist_join)
    then obtain ps ss where "join (ascii '' / '') (required_fields ep) = ps @ f @ ss"
      by (auto simp: sublist_def)
    then have "validation_message ep = ps @ f @ (ss @ msg_empty)"
      by (simp add: validation_message_def)
    then show ?thesis unfolding sublist_def by blast
  qed
  then show ?thesis by (simp add: list_all_iff)
qed

text \<open>
  Claim C4, as the code has it: for every endpoint and every request body that is a JSON
  object whose required fields, where present, are strings (and, for \<open>mint\<close>, whose
  \<open>metadata_text\<close> is absent, empty or a string that UTF-8 can encode), if some
  required field is missing or empty after trimming surrounding whitespace, the endpoint
  answers \<open>success: false\<close> with the error message of the endpoint, the message
  contains the name of every required field, and no process is spawned. The claim
  speaks of every request body.
\<close>

theorem validation_rejects:
  assumes "well_typed ep kvs"
    and "list_ex (\<lambda>f. trimmed kvs f = []) (required_fields ep)"
  shows "handle cfg world ep (Some (JObj kvs)) = ([], Inr (err (JStr (validation_message ep))))
         \<and> list_all (\<lambda>f. sublist f (validation_message ep)) (required_fields ep)"
  using assms by (simp add: handle_well_typed validation_message_names)

text \<open>A transfer whose \<open>to\<close> is two spaces is rejected, whatever the environment.\<close>

theorem validation_rejects_witness:
  "well_typed TransferFrom body_transfer_blank
   \<and> list_ex (\<lambda>f. trimmed body_transfer_blank f = []) (required_fields TransferFrom)
   \<and> handle small_config (world_const TimeoutExpired None) TransferFrom
         (Some (JObj body_transfer_blank))
       = ([], Inr (err (JStr (ascii ''from / to / tokenId'' @ msg_empty))))"
proof -
  have a: "well_typed TransferFrom body_transfer_blank"
    by (simp add: well_typed_def body_transfer_blank_def submitted_def lookup_def ascii_def)
  have b: "list_ex (\<lambda>f. trimmed body_transfer_blank f = []) (required_fields TransferFrom)"
    by (simp add: body_transfer_blank_def trimmed_def submitted_def lookup_def ascii_def
          strip_def is_whitespace_def)
  have c: "validation_message TransferFrom = ascii ''from / to / tokenId'' @ msg_empty"
    by (simp add: validation_message_def ascii_def)
  show ?thesis
    using validation_rejects [OF a b, of small_config "world_const TimeoutExpired None"] a b c
    by simp
qed

text \<open>
  The claim as written fails at bodies outside these: the handlers never check the type
  of a field and raise before they validate. A mint whose \<open>to\<close> is empty, whose
  required fields are all strings and whose \<open>metadata_text\<close> is the number 5 raises
  \<open>AttributeError\<close> at the encoding of line 170; a transfer without \<open>to\<close> whose
  \<open>tokenId\<close> is the number 7 raises \<open>AttributeError\<close> at \<open>.strip()\<close>; a mint without
  \<open>to\<close> whose free text holds a surrogate code point raises \<open>UnicodeEncodeError\<close>.
  None of them answers \<open>success: false\<close>; none spawns a process.
\<close>

theorem validation_rejects_counterexample:
  "list_all (\<lambda>f. is_str (submitted body_mint_number_text f)) (required_fields Mint)
   \<and> trimmed body_mint_number_text (ascii ''to'') = []
   \<and> handle small_config (world_const TimeoutExpired None) Mint
        (Some (JObj body_mint_number_text)) = ([], Inl AttributeError)
   \<and> map_of body_transfer_number (ascii ''to'') = None
   \<and> handle small_config (world_const TimeoutExpired None) TransferFrom
        (Some (JObj body_transfer_number)) = ([], Inl AttributeError)
   \<and> map_of body_mint_surrogate (ascii ''to'') = None
   \<and> handle small_config (world_const TimeoutExpired None) Mint
        (Some (JObj body_mint_surrogate)) = ([], Inl UnicodeEncodeError)"
  by (simp add: transfer_from_def mint_def get_json_def field_def body_transfer_number_def
        body_mint_surrogate_def body_mint_number_text_def trimmed_def submitted_def lookup_def
        py_or_def utf8_encode_cp_def strip_def is_whitespace_def ascii_def)

text \<open>
  Claim C10: for every endpoint and every request that passes validation (a well-typed
  body whose required fields are all non-empty after trimming), the handler invokes its
  contract method with the parameters built from the trimmed fields, not from the
  submitted strings, and these are the parameters on the command line of the spawned
  process. For \<open>create-or-set-category\<close> the one parameter is the JSON text of the two
  trimmed fields.
\<close>

theorem params_are_trimmed:
  assumes "well_typed ep kvs" and "list_all (\<lambda>f. trimmed kvs f \<noteq> []) (required_fields ep)"
  shows "handle cfg world ep (Some (JObj kvs)) =
           invoke cfg world (method_name ep)
             (params_of ep (trimmed kvs) (spec_metadata kvs)) (finish ep)
         \<and> fst (handle cfg world ep (Some (JObj kvs))) =
             (if preconditions cfg world
              then [(spec_command_line cfg (method_name ep)
                       (params_of ep (trimmed kvs) (spec_metadata kvs)) True,
                     WORK_DIR cfg, default_timeout)]
              else [])"
  using handle_accepted [OF assms] by (simp add: fst_invoke exec_cmc_spawns)

text \<open>The owner of token \<open>" 7 "\<close> is asked for as token \<open>"7"\<close>.\<close>

theorem params_are_trimmed_witness:
  "well_typed OwnerOf body_owner_padded
   \<and> list_all (\<lambda>f. trimmed body_owner_padded f \<noteq> []) (required_fields OwnerOf)
   \<and> handle small_config (world_const TimeoutExpired None) OwnerOf
         (Some (JObj body_owner_padded))
       = invoke small_config (world_const TimeoutExpired None) (ascii ''OwnerOf'')
           (Some [(ascii ''tokenId'', JStr (ascii ''7''))]) (query_response (JStr []))
   \<and> fst (handle small_config (world_const TimeoutExpired None) OwnerOf
             (Some (JObj body_owner_padded)))
       = [([ascii ''./cmc'', ascii ''client'', ascii ''contract'', ascii ''user'', ascii ''invoke'',
            ascii ''--contract-name=CMNFA'', ascii ''--method=OwnerOf'',
            ascii ''--sdk-conf-path=sdk.yml'', ascii ''--sync-result=true'',
            ascii ''--params={\"tokenId\":\"7\"}''], ascii ''/w'', 60)]"
proof -
  let ?W = "world_const TimeoutExpired None"
  have t: "trimmed body_owner_padded (ascii ''tokenId'') = ascii ''7''"
    by (simp add: body_owner_padded_def trimmed_def submitted_def lookup_def ascii_def
          strip_def is_whitespace_def)
  have a: "well_typed OwnerOf body_owner_padded"
    by (simp add: well_typed_def body_owner_padded_def submitted_def lookup_def)
  have b: "list_all (\<lambda>f. trimmed body_owner_padded f \<noteq> []) (required_fields OwnerOf)"
    by (simp add: t) (simp add: ascii_def)
  have p: "preconditions small_config ?W"
    by (rule preconditions_world_const)
  have c: "spec_command_line small_config (ascii ''OwnerOf'')
             (Some [(ascii ''tokenId'', JStr (ascii ''7''))]) True
           = [ascii ''./cmc'', ascii ''client'', ascii ''contract'', ascii ''user'', ascii ''invoke'',
            ascii ''--contract-name=CMNFA'', ascii ''--method=OwnerOf'',
            ascii ''--sdk-conf-path=sdk.yml'', ascii ''--sync-result=true'',
            ascii ''--params={\"tokenId\":\"7\"}'']"
    by (simp add: spec_command_line_def small_config_def ascii_def encode_basestring_ascii_def
          escape_char_def)
  have wd: "WORK_DIR small_config = ascii ''/w''"
    by (simp add: small_config_def)
  note th = params_are_trimmed [OF a b, of small_config ?W]
  from th [THEN conjunct1] have e1:
    "handle small_config ?W OwnerOf (Some (JObj body_owner_padded))
       = invoke small_config ?W (ascii ''OwnerOf'')
           (Some [(ascii ''tokenId'', JStr (ascii ''7''))]) (query_response (JStr []))"
    by (simp add: t)
  from th [THEN conjunct2] have e2:
    "fst (handle small_config ?W OwnerOf (Some (JObj body_owner_padded)))
       = [([ascii ''./cmc'', ascii ''client'', ascii ''contract'', ascii ''user'', ascii ''invoke'',
            ascii ''--contract-name=CMNFA'', ascii ''--method=OwnerOf'',
            ascii ''--sdk-conf-path=sdk.yml'', ascii ''--sync-result=true'',
            ascii ''--params={\"tokenId\":\"7\"}''], ascii ''/w'', 60)]"
    by (simp add: t p c wd default_timeout_def)
  from a b e1 e2 show ?thesis by (intro conjI)
qed

lemma hello_b64: "b64encode (the (utf8_encode (ascii ''hello''))) = ascii ''aGVsbG8=''"
  by (simp add: b64_eval)

text \<open>
  Claim C5, as the code has it: for every mint request (with a well-typed body) whose
  \<open>to\<close>, \<open>tokenId\<close> and \<open>categoryName\<close> are non-empty after trimming surrounding
  whitespace, the \<open>metadata\<close> parameter is always passed; it is \<open>metadata_b64\<close>
  unchanged when that is supplied (non-empty), and otherwise the base64 text of the
  UTF-8 bytes of \<open>metadata_text\<close>. In particular \<open>hello\<close> gives \<open>aGVsbG8=\<close> and an
  empty text gives the empty string. The claim asks only for non-empty fields.
\<close>

theorem mint_metadata:
  assumes "well_typed Mint kvs"
    and "list_all (\<lambda>f. trimmed kvs f \<noteq> []) (required_fields Mint)"
  shows "handle cfg world Mint (Some (JObj kvs)) =
           invoke cfg world (ascii ''Mint'')
             (Some [(ascii ''to'', JStr (trimmed kvs (ascii ''to''))),
                    (ascii ''tokenId'', JStr (trimmed kvs (ascii ''tokenId''))),
                    (ascii ''categoryName'', JStr (trimmed kvs (ascii ''categoryName''))),
                    (ascii ''metadata'',
                       if truthy (lookup kvs (ascii ''metadata_b64'') JNull)
                       then lookup kvs (ascii ''metadata_b64'') JNull
                       else JStr (b64encode
                                    (the (utf8_encode (str_of (metadata_text_of kvs))))))])
             pretty_response
         \<and> b64encode (the (utf8_encode (ascii ''hello''))) = ascii ''aGVsbG8=''
         \<and> JStr (b64encode (the (utf8_encode []))) = JStr []"
  using handle_accepted [OF assms, of cfg world]
  by (simp add: spec_metadata_def hello_b64)

text \<open>A mint with the free text \<open>hello\<close> and no \<open>metadata_b64\<close>.\<close>

theorem mint_metadata_witness:
  "well_typed Mint body_mint_hello
   \<and> list_all (\<lambda>f. trimmed body_mint_hello f \<noteq> []) (required_fields Mint)
   \<and> handle small_config (world_const TimeoutExpired None) Mint (Some (JObj body_mint_hello)) =
       invoke small_config (world_const TimeoutExpired None) (ascii ''Mint'')
         (Some [(ascii ''to'', JStr (ascii ''bob'')), (ascii ''tokenId'', JStr (ascii ''1'')),
                (ascii ''categoryName'', JStr (ascii ''art'')),
                (ascii ''metadata'', JStr (ascii ''aGVsbG8=''))])
         pretty_response"
proof -
  let ?W = "world_const TimeoutExpired None"
  have t: "trimmed body_mint_hello (ascii ''to'') = ascii ''bob''"
    "trimmed body_mint_hello (ascii ''tokenId'') = ascii ''1''"
    "trimmed body_mint_hello (ascii ''categoryName'') = ascii ''art''"
    by (simp_all add: body_mint_hello_def trimmed_def submitted_def lookup_def ascii_def
          strip_def is_whitespace_def)
  have m: "metadata_text_of body_mint_hello = JStr (ascii ''hello'')"
    by (simp add: metadata_text_of_def body_mint_hello_def lookup_def py_or_def ascii_def)
  have l: "lookup body_mint_hello (ascii ''metadata_b64'') JNull = JNull"
    by (simp add: body_mint_hello_def lookup_def ascii_def)
  have u: "utf8_encode (ascii ''hello'') \<noteq> None"
    by (simp add: ascii_def utf8_encode_cp_def)
  have a: "well_typed Mint body_mint_hello"
    by (simp add: well_typed_def m encodable_def u)
       (simp add: body_mint_hello_def submitted_def lookup_def ascii_def)
  have b: "list_all (\<lambda>f. trimmed body_mint_hello f \<noteq> []) (required_fields Mint)"
    by (simp add: t) (simp add: ascii_def)
  note th = mint_metadata [OF a b, of small_config ?W]
  from th [THEN conjunct1] have e:
    "handle small_config ?W Mint (Some (JObj body_mint_hello)) =
       invoke small_config ?W (ascii ''Mint'')
         (Some [(ascii ''to'', JStr (ascii ''bob'')), (ascii ''tokenId'', JStr (ascii ''1'')),
                (ascii ''categoryName'', JStr (ascii ''art'')),
                (ascii ''metadata'', JStr (ascii ''aGVsbG8=''))])
         pretty_response"
    by (simp add: t m l hello_b64)
  from a b e show ?thesis by (intro conjI)
qed

text \<open>
  The claim as written fails at a mint request whose \<open>to\<close> is a single space: the field
  is not empty, yet the request is rejected and no parameter is passed at all.
\<close>

theorem mint_metadata_counterexample:
  "str_of (submitted body_mint_blank_to (ascii ''to'')) \<noteq> []
   \<and> str_of (submitted body_mint_blank_to (ascii ''tokenId'')) \<noteq> []
   \<and> str_of (submitted body_mint_blank_to (ascii ''categoryName'')) \<noteq> []
   \<and> handle small_config (world_const TimeoutExpired None) Mint
        (Some (JObj body_mint_blank_to))
       = ([], Inr (err (JStr (ascii ''to / tokenId / categoryName'' @ msg_empty))))"
  by (simp add: mint_def get_json_def field_def body_mint_blank_to_def submitted_def
        lookup_def py_or_def utf8_encode_cp_def strip_def is_whitespace_def ascii_def)

section \<open>Properties of the responses\<close>

lemma pretty_response_obj:
  assumes "contract_result d = Some cr"
  shows "pretty_response (JObj d) =
     Inr (ok (JObj [(ascii ''message'', lookup cr (ascii ''message'') (JStr [])),
                    (ascii ''events'', lookup cr (ascii ''contract_event'') (JArr [])),
                    (ascii ''tx_id'', lookup d (ascii ''tx_id'') JNull),
                    (ascii ''block_height'', lookup d (ascii ''tx_block_height'') JNull)]))"
  using assms
  by (auto simp: pretty_response_def contract_result_def lookup_def
           split: option.splits json.splits)

lemma query_response_obj:
  assumes "contract_result d = Some cr"
  shows "query_response dflt (JObj d)
           = Inr (ok (decode_result (lookup cr (ascii ''result'') dflt)))"
  using assms
  by (auto simp: query_response_def contract_result_def lookup_def
           split: option.splits json.splits)

lemma finish_write: "is_write ep \<Longrightarrow> finish ep = pretty_response"
  by (cases ep) simp_all

text \<open>
  The answer of a handler to a well-typed body, case by case: the validation, the two
  file checks, and the outcome of the process.
\<close>

lemma finish_success:
  assumes "contract_result d = Some cr"
  shows "finish ep (JObj d) = Inr (ok (success_data ep (JObj d)))"
  using assms
  by (cases ep) (simp_all add: success_data_def pretty_response_obj query_response_obj)

lemma handle_response:
  assumes "well_typed ep kvs"
    and "\<forall>out er. subprocess_run world (command_of cfg ep kvs) (WORK_DIR cfg) default_timeout
                     = Completed 0 out er \<longrightarrow>
           (\<exists>d. json_loads world (strip out) = Some (JObj d) \<and> contract_result d \<noteq> None)"
  shows "snd (handle cfg world ep (Some (JObj kvs))) =
     (if list_ex (\<lambda>f. trimmed kvs f = []) (required_fields ep) then
        Inr (err (JStr (validation_message ep)))
      else if \<not> path_exists world (path_join (WORK_DIR cfg) (basename (CMC_BIN cfg))) then
        Inr (err (JStr (msg_no_cmc @ path_join (WORK_DIR cfg) (CMC_BIN cfg))))
      else if \<not> path_exists world (path_join (WORK_DIR cfg) (SDK_CONF_PATH cfg)) then
        Inr (err (JStr (msg_no_sdk @ path_join (WORK_DIR cfg) (SDK_CONF_PATH cfg))))
      else
        (case subprocess_run world (command_of cfg ep kvs) (WORK_DIR cfg) default_timeout of
           Completed rc out er \<Rightarrow>
             if rc \<noteq> 0 then Inr (err (JStr (failure_message rc (strip out) (strip er))))
             else Inr (ok (success_data ep (the (json_loads world (strip out)))))
         | TimeoutExpired \<Rightarrow> Inr (err (JStr msg_timeout))
         | RunException e \<Rightarrow> Inr (err (JStr (msg_exception @ e)))))"
proof (cases "list_ex (\<lambda>f. trimmed kvs f = []) (required_fields ep)")
  case True
  with assms(1) show ?thesis by (simp add: handle_well_typed)
next
  case False
  let ?cmd = "command_of cfg ep kvs"
  from False assms(1) have h: "handle cfg world ep (Some (JObj kvs)) =
      invoke cfg world (method_name ep) (params_of ep (trimmed kvs) (spec_metadata kvs)) (finish ep)"
    by (simp add: handle_well_typed)
  show ?thesis
  proof (cases "subprocess_run world ?cmd (WORK_DIR cfg) default_timeout")
    case (Completed rc out er)
    show ?thesis
    proof (cases "rc = 0")
      case True
      with Completed assms(2) obtain d cr where "json_loads world (strip out) = Some (JObj d)"
        and "contract_result d = Some cr" by auto
      with Completed True False h finish_success [of d cr ep] show ?thesis
        by (simp add: snd_invoke exec_cmc_eq command_of_def)
    next
      case nz: False
      with Completed False h show ?thesis
        by (simp add: snd_invoke exec_cmc_eq command_of_def)
    qed
  next
    case TimeoutExpired
    with False h show ?thesis by (simp add: snd_invoke exec_cmc_eq command_of_def)
  next
    case (RunException e)
    with False h show ?thesis by (simp add: snd_invoke exec_cmc_eq command_of_def)
  qed
qed

text \<open>
  Claim C9, as the code has it: for every write operation (mint, transfer-from, burn,
  create-or-set-category) whose request passes validation and whose invocation succeeds
  (both files found, exit code 0) with an output that parses to a JSON object whose
  \<open>contract_result\<close>, if present, is an object, the handler spawns exactly that one
  process and answers \<open>success: true\<close> with data that holds, unchanged and with no
  base64 decoding, \<open>contract_result.message\<close> (\<open>""\<close> when absent), the list
  \<open>contract_result.contract_event\<close> as returned (\<open>[]\<close> when absent), \<open>tx_id\<close> and
  \<open>tx_block_height\<close> (\<open>null\<close> when absent). The claim speaks of every parsed JSON
  body.
\<close>

theorem write_response:
  assumes "is_write ep"
    and "well_typed ep kvs"
    and "list_all (\<lambda>f. trimmed kvs f \<noteq> []) (required_fields ep)"
    and "preconditions cfg world"
    and "subprocess_run world (command_of cfg ep kvs) (WORK_DIR cfg) default_timeout
           = Completed 0 out er"
    and "json_loads world (strip out) = Some (JObj d)"
    and "contract_result d = Some cr"
  shows "handle cfg world ep (Some (JObj kvs)) =
     ([(command_of cfg ep kvs, WORK_DIR cfg, default_timeout)],
      Inr (ok (JObj [(ascii ''message'', lookup cr (ascii ''message'') (JStr [])),
                     (ascii ''events'', lookup cr (ascii ''contract_event'') (JArr [])),
                     (ascii ''tx_id'', lookup d (ascii ''tx_id'') JNull),
                     (ascii ''block_height'', lookup d (ascii ''tx_block_height'') JNull)])))"
proof -
  from assms(4) have p: "path_exists world (path_join (WORK_DIR cfg) (basename (CMC_BIN cfg)))"
    "path_exists world (path_join (WORK_DIR cfg) (SDK_CONF_PATH cfg))"
    by (simp_all add: preconditions_def)
  have "handle cfg world ep (Some (JObj kvs)) =
          invoke cfg world (method_name ep)
            (params_of ep (trimmed kvs) (spec_metadata kvs)) (finish ep)"
    using assms(2,3) by (rule handle_accepted)
  also have "\<dots> = ([(command_of cfg ep kvs, WORK_DIR cfg, default_timeout)],
                    finish ep (JObj d))"
    using p assms(5,6) by (simp add: invoke_def exec_cmc_eq command_of_def)
  finally show ?thesis
    using assms(1,7) by (simp add: finish_write pretty_response_obj)
qed

lemma body_token7_accepted:
  "well_typed Burn body_token7
   \<and> list_all (\<lambda>f. trimmed body_token7 f \<noteq> []) (required_fields Burn)"
  by (simp add: well_typed_def body_token7_def trimmed_def submitted_def lookup_def
        strip_def is_whitespace_def ascii_def)

lemma contract_result_chain_output:
  "contract_result chain_output =
     Some [(ascii ''message'', JStr (ascii ''MA=='')),
           (ascii ''contract_event'',
              JArr [JObj [(ascii ''topic'', JStr (ascii ''burn''))],
                    JObj [(ascii ''topic'', JStr (ascii ''audit''))]])]"
  by (simp add: contract_result_def chain_output_def ascii_def)

lemma write_bodies_accepted:
  "well_typed Mint body_mint_hello"
  "list_all (\<lambda>f. trimmed body_mint_hello f \<noteq> []) (required_fields Mint)"
  "well_typed TransferFrom body_transfer_ok"
  "list_all (\<lambda>f. trimmed body_transfer_ok f \<noteq> []) (required_fields TransferFrom)"
  "well_typed CreateOrSetCategory body_category"
  "list_all (\<lambda>f. trimmed body_category f \<noteq> []) (required_fields CreateOrSetCategory)"
  by (simp_all add: well_typed_def encodable_def metadata_text_of_def py_or_def
        body_mint_hello_def body_transfer_ok_def body_category_def trimmed_def submitted_def
        lookup_def utf8_encode_cp_def strip_def is_whitespace_def ascii_def)

text \<open>
  All four write operations against a client whose output carries the message \<open>MA==\<close>
  (valid base64 of \<open>0\<close>) and two events: the message stays \<open>MA==\<close>, the events keep
  their order, and the burn runs the command line shown.
\<close>

theorem write_response_witness:
  "handle small_config (world_const (Completed 0 (ascii ''{...}'') []) (Some (JObj chain_output)))
      Burn (Some (JObj body_token7))
     = ([(command_of small_config Burn body_token7, ascii ''/w'', 60)], Inr (ok chain_data))
   \<and> handle small_config (world_const (Completed 0 (ascii ''{...}'') []) (Some (JObj chain_output)))
      Mint (Some (JObj body_mint_hello))
     = ([(command_of small_config Mint body_mint_hello, ascii ''/w'', 60)], Inr (ok chain_data))
   \<and> handle small_config (world_const (Completed 0 (ascii ''{...}'') []) (Some (JObj chain_output)))
      TransferFrom (Some (JObj body_transfer_ok))
     = ([(command_of small_config TransferFrom body_transfer_ok, ascii ''/w'', 60)],
        Inr (ok chain_data))
   \<and> handle small_config (world_const (Completed 0 (ascii ''{...}'') []) (Some (JObj chain_output)))
      CreateOrSetCategory (Some (JObj body_category))
     = ([(command_of small_config CreateOrSetCategory body_category, ascii ''/w'', 60)],
        Inr (ok chain_data))
   \<and> command_of small_config Burn body_token7
     = [ascii ''./cmc'', ascii ''client'', ascii ''contract'', ascii ''user'', ascii ''invoke'',
        ascii ''--contract-name=CMNFA'', ascii ''--method=Burn'',
        ascii ''--sdk-conf-path=sdk.yml'', ascii ''--sync-result=true'',
        ascii ''--params={\"tokenId\":\"7\"}'']"
proof -
  let ?W = "world_const (Completed 0 (ascii ''{...}'') []) (Some (JObj chain_output))"
  have r: "subprocess_run ?W cmd (WORK_DIR small_config) default_timeout
             = Completed 0 (ascii ''{...}'') []" for cmd
    by (simp add: world_const_def)
  have j: "json_loads ?W (strip (ascii ''{...}'')) = Some (JObj chain_output)"
    by (simp add: world_const_def)
  note c = contract_result_chain_output
  note p = preconditions_world_const
  have w: "is_write Burn" "is_write Mint" "is_write TransferFrom" "is_write CreateOrSetCategory"
    by simp_all
  have wd: "WORK_DIR small_config = ascii ''/w''" "default_timeout = 60"
    by (simp_all add: small_config_def default_timeout_def)
  note ev = wd lookup_def chain_output_def chain_data_def ascii_def
  have e1: "handle small_config ?W Burn (Some (JObj body_token7))
     = ([(command_of small_config Burn body_token7, ascii ''/w'', 60)], Inr (ok chain_data))"
    unfolding write_response [OF w(1) body_token7_accepted [THEN conjunct1]
        body_token7_accepted [THEN conjunct2] p r j c]
    by (simp add: ev)
  have e2: "handle small_config ?W Mint (Some (JObj body_mint_hello))
     = ([(command_of small_config Mint body_mint_hello, ascii ''/w'', 60)], Inr (ok chain_data))"
    unfolding write_response [OF w(2) write_bodies_accepted(1,2) p r j c]
    by (simp add: ev)
  have e3: "handle small_config ?W TransferFrom (Some (JObj body_transfer_ok))
     = ([(command_of small_config TransferFrom body_transfer_ok, ascii ''/w'', 60)],
        Inr (ok chain_data))"
    unfolding write_response [OF w(3) write_bodies_accepted(3,4) p r j c]
    by (simp add: ev)
  have e4: "handle small_config ?W CreateOrSetCategory (Some (JObj body_category))
     = ([(command_of small_config CreateOrSetCategory body_category, ascii ''/w'', 60)],
        Inr (ok chain_data))"
    unfolding write_response [OF w(4) write_bodies_accepted(5,6) p r j c]
    by (simp add: ev)
  have e5: "command_of small_config Burn body_token7
     = [ascii ''./cmc'', ascii ''client'', ascii ''contract'', ascii ''user'', ascii ''invoke'',
        ascii ''--contract-name=CMNFA'', ascii ''--method=Burn'',
        ascii ''--sdk-conf-path=sdk.yml'', ascii ''--sync-result=true'',
        ascii ''--params={\"tokenId\":\"7\"}'']"
    by (simp add: command_of_def spec_command_line_def small_config_def body_token7_def
          trimmed_def submitted_def lookup_def strip_def is_whitespace_def
          encode_basestring_ascii_def escape_char_def ascii_def)
  from e1 e2 e3 e4 e5 show ?thesis by (intro conjI)
qed

text \<open>
  The claim as written fails at a parsed JSON body whose \<open>contract_result\<close> is
  \<open>null\<close>: the transfer is invoked, exits with code 0, and the handler raises
  \<open>AttributeError\<close> on \<open>cr.get\<close> instead of answering.
\<close>

theorem write_response_counterexample:
  "json_loads (world_const (Completed 0 (ascii ''{...}'') []) (Some (JObj chain_output_null)))
      (strip (ascii ''{...}'')) = Some (JObj chain_output_null)
   \<and> fst (handle small_config
            (world_const (Completed 0 (ascii ''{...}'') []) (Some (JObj chain_output_null)))
            TransferFrom (Some (JObj body_transfer_ok))) \<noteq> []
   \<and> snd (handle small_config
            (world_const (Completed 0 (ascii ''{...}'') []) (Some (JObj chain_output_null)))
            TransferFrom (Some (JObj body_transfer_ok))) = Inl AttributeError"
  by (simp add: transfer_from_def get_json_def field_def body_transfer_ok_def invoke_def
        exec_cmc_def world_const_def pretty_response_def chain_output_null_def Let_def
        strip_def is_whitespace_def ascii_def)

text \<open>
  The same answer for any request at all, well typed or not, once the handler has
  spawned its process.
\<close>

lemma spawned_write_answers:
  assumes "is_write ep"
    and "fst (handle cfg world ep request) = [(cmd, cwd, t)]"
    and "subprocess_run world cmd cwd t = Completed 0 out er"
    and "json_loads world (strip out) = Some (JObj d)"
    and "contract_result d = Some cr"
  shows "snd (handle cfg world ep request) =
     Inr (ok (JObj [(ascii ''message'', lookup cr (ascii ''message'') (JStr [])),
                    (ascii ''events'', lookup cr (ascii ''contract_event'') (JArr [])),
                    (ascii ''tx_id'', lookup d (ascii ''tx_id'') JNull),
                    (ascii ''block_height'', lookup d (ascii ''tx_block_height'') JNull)]))"
proof -
  from assms(2) have "fst (handle cfg world ep request) \<noteq> []" by simp
  then obtain p where
    h: "handle cfg world ep request = invoke cfg world (method_name ep) p (finish ep)"
    using handle_spawned by blast
  with assms(2) have "fst (invoke cfg world (method_name ep) p (finish ep)) = [(cmd, cwd, t)]"
    by simp
  from invoke_success [OF this assms(3,4)] h
  have "snd (handle cfg world ep request) = finish ep (JObj d)" by simp
  with assms(1,5) show ?thesis by (simp add: finish_write pretty_response_obj)
qed

text \<open>
  Claim C2, as the code has it: no handler catches an exception. For every request with
  a well-typed body, and provided that an exit with code 0 of the command run prints a
  JSON object whose \<open>contract_result\<close>, if present, is an object, the response is
  \<open>{success: false, error}\<close> with the validation message when a required field is
  missing or blank, with the message of the missing binary or SDK file when a file check
  fails, with the message of the non-zero exit, of the timeout or of the exception of
  the start; and it is \<open>{success: true, data}\<close> when the process exits with code 0.
  So it is one of the two shapes. Nothing is said here about other outputs or bodies.
\<close>

theorem uniform_response:
  assumes "well_typed ep kvs"
    and "\<forall>out er. subprocess_run world (command_of cfg ep kvs) (WORK_DIR cfg) default_timeout
                     = Completed 0 out er \<longrightarrow>
           (\<exists>d. json_loads world (strip out) = Some (JObj d) \<and> contract_result d \<noteq> None)"
  shows "snd (handle cfg world ep (Some (JObj kvs))) =
     (if list_ex (\<lambda>f. trimmed kvs f = []) (required_fields ep) then
        Inr (err (JStr (validation_message ep)))
      else if \<not> path_exists world (path_join (WORK_DIR cfg) (basename (CMC_BIN cfg))) then
        Inr (err (JStr (msg_no_cmc @ path_join (WORK_DIR cfg) (CMC_BIN cfg))))
      else if \<not> path_exists world (path_join (WORK_DIR cfg) (SDK_CONF_PATH cfg)) then
        Inr (err (JStr (msg_no_sdk @ path_join (WORK_DIR cfg) (SDK_CONF_PATH cfg))))
      else
        (case subprocess_run world (command_of cfg ep kvs) (WORK_DIR cfg) default_timeout of
           Completed rc out er \<Rightarrow>
             if rc \<noteq> 0 then Inr (err (JStr (failure_message rc (strip out) (strip er))))
             else Inr (ok (success_data ep (the (json_loads world (strip out)))))
         | TimeoutExpired \<Rightarrow> Inr (err (JStr msg_timeout))
         | RunException e \<Rightarrow> Inr (err (JStr (msg_exception @ e)))))
   \<and> (\<exists>v. snd (handle cfg world ep (Some (JObj kvs))) = Inr (ok v)
          \<or> snd (handle cfg world ep (Some (JObj kvs))) = Inr (err v))"
proof -
  note h = handle_response [OF assms]
  have s: "\<exists>v. snd (handle cfg world ep (Some (JObj kvs))) = Inr (ok v)
          \<or> snd (handle cfg world ep (Some (JObj kvs))) = Inr (err v)"
    unfolding h by (auto split: run_result.splits)
  from h s show ?thesis by (rule conjI)
qed

lemma success_data_chain_output: "success_data Burn (JObj chain_output) = chain_data"
  by (simp add: success_data_def contract_result_def lookup_def chain_output_def chain_data_def
        ascii_def)

text \<open>
  The burn of token 7 on each path: success, non-zero exit, timeout, exception of the
  start, missing binary, missing SDK file; and a transfer rejected by the validation.
\<close>

theorem uniform_response_witness:
  "well_typed Burn body_token7
   \<and> snd (handle small_config
            (world_const (Completed 0 (ascii ''{...}'') []) (Some (JObj chain_output)))
            Burn (Some (JObj body_token7))) = Inr (ok chain_data)
   \<and> snd (handle small_config (world_const (Completed 1 [] (ascii ''denied'' @ [10])) None)
            Burn (Some (JObj body_token7))) = Inr (err (JStr (ascii ''denied'')))
   \<and> snd (handle small_config (world_const TimeoutExpired None)
            Burn (Some (JObj body_token7))) = Inr (err (JStr msg_timeout))
   \<and> snd (handle small_config (world_const (RunException (ascii ''[Errno 2]'')) None)
            Burn (Some (JObj body_token7))) = Inr (err (JStr (msg_exception @ ascii ''[Errno 2]'')))
   \<and> snd (handle small_config (world_files [] TimeoutExpired)
            Burn (Some (JObj body_token7))) = Inr (err (JStr (msg_no_cmc @ ascii ''/w/./cmc'')))
   \<and> snd (handle small_config (world_files [ascii ''/w/cmc''] TimeoutExpired)
            Burn (Some (JObj body_token7))) = Inr (err (JStr (msg_no_sdk @ ascii ''/w/sdk.yml'')))
   \<and> well_typed TransferFrom body_transfer_blank
   \<and> snd (handle small_config (world_const TimeoutExpired None)
            TransferFrom (Some (JObj body_transfer_blank)))
       = Inr (err (JStr (ascii ''from / to / tokenId'' @ msg_empty)))"
proof -
  let ?W1 = "world_const (Completed 0 (ascii ''{...}'') []) (Some (JObj chain_output))"
  let ?W2 = "world_const (Completed 1 [] (ascii ''denied'' @ [10])) None"
  let ?W3 = "world_const TimeoutExpired None"
  let ?W4 = "world_const (RunException (ascii ''[Errno 2]'')) None"
  let ?W5 = "world_files [] TimeoutExpired"
  let ?W6 = "world_files [ascii ''/w/cmc''] TimeoutExpired"
  have a: "well_typed Burn body_token7"
    using body_token7_accepted by simp
  have at: "well_typed TransferFrom body_transfer_blank"
    by (simp add: well_typed_def body_transfer_blank_def submitted_def lookup_def ascii_def)
  have bt: "list_ex (\<lambda>f. trimmed body_transfer_blank f = []) (required_fields TransferFrom)"
    by (simp add: body_transfer_blank_def trimmed_def submitted_def lookup_def ascii_def
          strip_def is_whitespace_def)
  have vt: "validation_message TransferFrom = ascii ''from / to / tokenId'' @ msg_empty"
    by (simp add: validation_message_def ascii_def)
  have paths: "path_join (WORK_DIR small_config) (basename (CMC_BIN small_config)) = ascii ''/w/cmc''"
    "path_join (WORK_DIR small_config) (CMC_BIN small_config) = ascii ''/w/./cmc''"
    "path_join (WORK_DIR small_config) (SDK_CONF_PATH small_config) = ascii ''/w/sdk.yml''"
    by (simp_all add: small_config_def path_join_def basename_def ascii_def)
  have b1: "\<forall>out er. subprocess_run ?W1 (command_of small_config Burn body_token7)
                (WORK_DIR small_config) default_timeout = Completed 0 out er \<longrightarrow>
           (\<exists>d. json_loads ?W1 (strip out) = Some (JObj d) \<and> contract_result d \<noteq> None)"
    by (simp add: world_const_def contract_result_def chain_output_def ascii_def)
  have b2: "\<forall>out er. subprocess_run ?W2 (command_of small_config Burn body_token7)
                (WORK_DIR small_config) default_timeout = Completed 0 out er \<longrightarrow>
           (\<exists>d. json_loads ?W2 (strip out) = Some (JObj d) \<and> contract_result d \<noteq> None)"
    by (simp add: world_const_def)
  have b3: "\<forall>out er. subprocess_run ?W3 (command_of small_config ep kvs)
                (WORK_DIR small_config) default_timeout = Completed 0 out er \<longrightarrow>
           (\<exists>d. json_loads ?W3 (strip out) = Some (JObj d) \<and> contract_result d \<noteq> None)"
    for ep kvs
    by (simp add: world_const_def)
  have b4: "\<forall>out er. subprocess_run ?W4 (command_of small_config Burn body_token7)
                (WORK_DIR small_config) default_timeout = Completed 0 out er \<longrightarrow>
           (\<exists>d. json_loads ?W4 (strip out) = Some (JObj d) \<and> contract_result d \<noteq> None)"
    by (simp add: world_const_def)
  have b5: "\<forall>out er. subprocess_run (world_files fs TimeoutExpired)
                (command_of small_config Burn body_token7)
                (WORK_DIR small_config) default_timeout = Completed 0 out er \<longrightarrow>
           (\<exists>d. json_loads (world_files fs TimeoutExpired) (strip out) = Some (JObj d)
                \<and> contract_result d \<noteq> None)"
    for fs
    by (simp add: world_files_def)
  note ev = body_token7_def trimmed_def submitted_def lookup_def world_const_def world_files_def success_data_chain_output
    failure_message_def strip_def is_whitespace_def paths ascii_def
  have e1: "snd (handle small_config ?W1 Burn (Some (JObj body_token7))) = Inr (ok chain_data)"
    unfolding uniform_response [OF a b1, THEN conjunct1] by (simp add: ev)
  have e2: "snd (handle small_config ?W2 Burn (Some (JObj body_token7)))
       = Inr (err (JStr (ascii ''denied'')))"
    unfolding uniform_response [OF a b2, THEN conjunct1] by (simp add: ev)
  have e3: "snd (handle small_config ?W3 Burn (Some (JObj body_token7)))
       = Inr (err (JStr msg_timeout))"
    unfolding uniform_response [OF a b3, THEN conjunct1] by (simp add: ev)
  have e4: "snd (handle small_config ?W4 Burn (Some (JObj body_token7)))
       = Inr (err (JStr (msg_exception @ ascii ''[Errno 2]'')))"
    unfolding uniform_response [OF a b4, THEN conjunct1] by (simp add: ev)
  have e5: "snd (handle small_config ?W5 Burn (Some (JObj body_token7)))
       = Inr (err (JStr (msg_no_cmc @ ascii ''/w/./cmc'')))"
    unfolding uniform_response [OF a b5, THEN conjunct1] by (simp add: ev)
  have e6: "snd (handle small_config ?W6 Burn (Some (JObj body_token7)))
       = Inr (err (JStr (msg_no_sdk @ ascii ''/w/sdk.yml'')))"
    unfolding uniform_response [OF a b5, THEN conjunct1] by (simp add: ev)
  have e7: "snd (handle small_config ?W3 TransferFrom (Some (JObj body_transfer_blank)))
       = Inr (err (JStr (ascii ''from / to / tokenId'' @ msg_empty)))"
    unfolding uniform_response [OF at b3, THEN conjunct1] using bt by (simp add: vt)
  from a e1 e2 e3 e4 e5 e6 at e7 show ?thesis by (intro conjI)
qed

text \<open>
  The claim as written fails when the client exits with code 0 and prints \<open>[]\<close>, a
  JSON value that is not an object: the burn handler raises \<open>AttributeError\<close>, and the
  response is neither of the two shapes.
\<close>

theorem uniform_response_counterexample:
  "snd (handle small_config (world_const (Completed 0 (ascii ''[]'') []) (Some (JArr [])))
          Burn (Some (JObj body_token7))) = Inl AttributeError"
  by (simp add: burn_def get_json_def field_def body_token7_def invoke_def exec_cmc_def
        world_const_def pretty_response_def Let_def strip_def is_whitespace_def ascii_def)

text \<open>
  Claim C1 at the output \<open>not json\<close> of a client that exits with code 0: \<open>exec_cmc\<close>
  returns success with the text as its data, and the total-supply handler, which calls
  \<open>data.get\<close> on that string, raises \<open>AttributeError\<close> instead of answering with the
  text.
\<close>

theorem unparsable_output_raises:
  "exec_cmc small_config (world_const (Completed 0 (ascii ''not json'') []) None)
       (ascii ''TotalSupply'') None True default_timeout
     = ([([ascii ''./cmc'', ascii ''client'', ascii ''contract'', ascii ''user'', ascii ''invoke'',
           ascii ''--contract-name=CMNFA'', ascii ''--method=TotalSupply'',
           ascii ''--sdk-conf-path=sdk.yml'', ascii ''--sync-result=true''], ascii ''/w'', 60)],
        True, JStr (ascii ''not json''))
   \<and> snd (handle small_config (world_const (Completed 0 (ascii ''not json'') []) None)
            TotalSupply None) = Inl AttributeError"
  by (simp add: total_supply_def invoke_def exec_cmc_def world_const_def small_config_def
        default_timeout_def query_response_def Let_def strip_def is_whitespace_def ascii_def)

text \<open>
  The same holds at every endpoint and every unparsable output: once the process has
  exited with code 0 and its output does not parse, the handler raises.
\<close>

lemma every_endpoint_raises_on_unparsable:
  assumes "fst (handle cfg world ep request) = [(cmd, cwd, t)]"
    and "subprocess_run world cmd cwd t = Completed 0 out er"
    and "json_loads world (strip out) = None"
  shows "snd (handle cfg world ep request) = Inl AttributeError"
proof -
  from assms(1) have "fst (handle cfg world ep request) \<noteq> []" by simp
  then obtain p where
    h: "handle cfg world ep request = invoke cfg world (method_name ep) p (finish ep)"
    using handle_spawned by blast
  with assms(1) have
    "fst (exec_cmc cfg world (method_name ep) p True default_timeout) = [(cmd, cwd, t)]"
    by (simp add: fst_invoke)
  from exec_cmc_result [OF this] assms(2,3)
  have "snd (exec_cmc cfg world (method_name ep) p True default_timeout)
          = (True, JStr (strip out))"
    by simp
  with h have "snd (handle cfg world ep request) = finish ep (JStr (strip out))"
    by (simp add: snd_invoke)
  then show ?thesis
    by (cases ep) (simp_all add: query_response_def pretty_response_def)
qed

end
